theory Spec2Isabelle
  imports Main "HOL-Library.Log_Nat" "HOL-Library.AList"
begin

section \<open>Strings\<close>

text \<open>
  A JavaScript string is a sequence of UTF-16 code units. All the characters the service
  looks for lie in the Basic Multilingual Plane, so each of them is one code unit; a
  string is modelled as the list of its code units.
\<close>

type_synonym jsstring = "nat list"

text \<open>The class \<open>\s\<close> of a regular expression, which is also what \<open>trim\<close> removes.\<close>

definition isSpace :: "nat \<Rightarrow> bool" where
  "isSpace c \<longleftrightarrow>
     c = 0x09 \<or> c = 0x0A \<or> c = 0x0B \<or> c = 0x0C \<or> c = 0x0D \<or> c = 0x20 \<or> c = 0xA0
     \<or> c = 0x1680 \<or> (0x2000 \<le> c \<and> c \<le> 0x200A) \<or> c = 0x2028 \<or> c = 0x2029
     \<or> c = 0x202F \<or> c = 0x205F \<or> c = 0x3000 \<or> c = 0xFEFF"

definition trim :: "jsstring \<Rightarrow> jsstring" where
  "trim s = rev (dropWhile isSpace (rev (dropWhile isSpace s)))"

fun startsWith :: "jsstring \<Rightarrow> jsstring \<Rightarrow> bool" where
  "startsWith s [] = True"
| "startsWith [] (p # ps) = False"
| "startsWith (c # cs) (p # ps) = (c = p \<and> startsWith cs ps)"

definition endsWith :: "jsstring \<Rightarrow> jsstring \<Rightarrow> bool" where
  "endsWith s t = startsWith (rev s) (rev t)"

text \<open>\<open>String.prototype.includes\<close>: the pattern occurs at some position.\<close>

fun strIncludes :: "jsstring \<Rightarrow> jsstring \<Rightarrow> bool" where
  "strIncludes [] t = (t = [])"
| "strIncludes (c # cs) t = (startsWith (c # cs) t \<or> strIncludes cs t)"

text \<open>
  \<open>RegExp.prototype.test\<close> for an unanchored alternation of literal words: one of the
  words occurs somewhere in the string.
\<close>

definition testAny :: "jsstring list \<Rightarrow> jsstring \<Rightarrow> bool" where
  "testAny pats s = list_ex (strIncludes s) pats"

text \<open>The decimal digits of a natural number, as \<open>String(n)\<close> writes an integer.\<close>

fun decimal :: "nat \<Rightarrow> jsstring" where
  "decimal n = (if n < 10 then [48 + n] else decimal (n div 10) @ [48 + n mod 10])"

declare decimal.simps [simp del]

section \<open>Numbers\<close>

text \<open>
  A JavaScript number is an IEEE 754 binary64 value. The finite ones are rational, and
  the model computes with them as rationals: every arithmetic operation is the exact
  operation followed by \<open>fl\<close>, rounding to the nearest value with a 53-bit significand,
  ties to the even significand. All magnitudes that occur in the service lie far inside
  the normal range of binary64, so overflow and subnormal numbers play no role.
  Integer-valued quantities below \<open>2^53\<close> are exact in binary64 and are kept as \<open>int\<close>.
\<close>

definition roundTiesToEven :: "rat \<Rightarrow> int" where
  "roundTiesToEven q =
     (let f = \<lfloor>q\<rfloor>; r = q - of_int f
      in if r < 1 / 2 then f else if 1 / 2 < r then f + 1 else if even f then f else f + 1)"

text \<open>The binary exponent of a positive number: \<open>2 ^ e \<le> x < 2 ^ (e + 1)\<close>.\<close>

definition binExponent :: "rat \<Rightarrow> int" where
  "binExponent x =
     (if 1 \<le> x then int (floorlog 2 (nat \<lfloor>x\<rfloor>)) - 1
      else - int (floorlog 2 (nat \<lceil>1 / x\<rceil> - 1)))"

definition fl :: "rat \<Rightarrow> rat" where
  "fl x =
     (if x = 0 then 0
      else let u = 2 powi (binExponent \<bar>x\<bar> - 52) in of_int (roundTiesToEven (x / u)) * u)"

definition fadd :: "rat \<Rightarrow> rat \<Rightarrow> rat" where
  "fadd a b = fl (a + b)"

definition fmul :: "rat \<Rightarrow> rat \<Rightarrow> rat" where
  "fmul a b = fl (a * b)"

definition fdiv :: "rat \<Rightarrow> rat \<Rightarrow> rat" where
  "fdiv a b = fl (a / b)"

text \<open>\<open>Math.round\<close>: the nearest integer, a tie going up.\<close>

definition MathRound :: "rat \<Rightarrow> int" where
  "MathRound x = \<lfloor>x + 1 / 2\<rfloor>"

text \<open>
  \<open>Number(x.toFixed(1))\<close> for \<open>\<bar>x\<bar> < 10^21\<close>: \<open>toFixed\<close> picks the integer \<open>n\<close> with
  \<open>n / 10\<close> nearest to the magnitude of \<open>x\<close> (the larger one at a tie) and prints it with
  one decimal; \<open>Number\<close> reads that decimal back as the nearest binary64 value.
\<close>

definition toFixed1 :: "rat \<Rightarrow> rat" where
  "toFixed1 x = (if x < 0 then - (of_int \<lfloor>- x * 10 + 1 / 2\<rfloor> / 10) else of_int \<lfloor>x * 10 + 1 / 2\<rfloor> / 10)"

definition NumberToFixed1 :: "rat \<Rightarrow> rat" where
  "NumberToFixed1 x = fl (toFixed1 x)"

text \<open>
  The rounding of the specification, for comparison with the code: \<open>round1\<close> of an exact
  value, the nearest number with one decimal, a tie going up as in \<open>Math.round\<close>.
\<close>

definition specRoundOneDecimal :: "rat \<Rightarrow> rat" where
  "specRoundOneDecimal x = of_int \<lfloor>x * 10 + 1 / 2\<rfloor> / 10"

definition clamp :: "int \<Rightarrow> int \<Rightarrow> int \<Rightarrow> int" where
  "clamp v lo hi = min hi (max lo v)"

definition MAX_SAFE_INTEGER :: int where
  "MAX_SAFE_INTEGER = 9007199254740991"

text \<open>
  A number that may also be \<open>NaN\<close> or infinite, where the code can meet one: the result
  of \<open>Number(string)\<close> and the coordinates made of it. The two zeros are not told apart.
\<close>

datatype jsnumber = NaN | Finite rat | PlusInfinity | MinusInfinity


section \<open>Name normalisation and name patterns\<close>

text \<open>\<open>name.replace(/\s+/g, '').trim()\<close>\<close>

definition normalizeStationName :: "jsstring \<Rightarrow> jsstring" where
  "normalizeStationName name = trim (filter (\<lambda>c. \<not> isSpace c) name)"

text \<open>
  The administrative suffixes of the pattern in \<open>normalizeCityToken\<close>, in the order of
  its alternatives (U+7279 U+522B U+884C U+653F U+533A, U+81EA U+6CBB U+5DDE, ...).
\<close>

definition adminSuffixes :: "jsstring list" where
  "adminSuffixes =
     [[0x7279, 0x522B, 0x884C, 0x653F, 0x533A],
      [0x81EA, 0x6CBB, 0x5DDE],
      [0x81EA, 0x6CBB, 0x53BF],
      [0x5730, 0x533A],
      [0x76DF],
      [0x5E02],
      [0x5DDE],
      [0x533A],
      [0x53BF]]"

text \<open>
  Replacing a match of \<open>(w1|...|wn)$\<close> by the empty string: the scan goes from the left
  and stops at the first position whose whole remainder is one of the words, so that
  remainder is cut off. Nothing is left for a second match.
\<close>

fun stripAdminSuffix :: "jsstring \<Rightarrow> jsstring" where
  "stripAdminSuffix [] = []"
| "stripAdminSuffix (c # cs) =
     (if List.member adminSuffixes (c # cs) then [] else c # stripAdminSuffix cs)"

text \<open>An absent city name and the empty string are both falsy.\<close>

definition normalizeCityToken :: "jsstring option \<Rightarrow> jsstring" where
  "normalizeCityToken cityName =
     (case cityName of
        None \<Rightarrow> []
      | Some c \<Rightarrow> if c = [] then [] else trim (stripAdminSuffix c))"

definition zhan :: nat where
  "zhan = 0x7AD9"

text \<open>East, west, south, north: U+4E1C, U+897F, U+5357, U+5317.\<close>

definition directions :: "nat list" where
  "directions = [0x4E1C, 0x897F, 0x5357, 0x5317]"

definition countyWords :: "jsstring list" where
  "countyWords =
     [[0x53BF],
      [0x9547],
      [0x4E61],
      [0x6751],
      [0x65B0, 0x533A],
      [0x5F00, 0x53D1, 0x533A],
      [0x5DE5, 0x4E1A, 0x56ED],
      [0x90CA],
      [0x8857, 0x9053],
      [0x793E, 0x533A]]"

definition isCountyLevelName :: "jsstring \<Rightarrow> bool" where
  "isCountyLevelName name = testAny countyWords name"

text \<open>\<open>/(E|W|S|N)Z$/\<close> with the four directions and the station character.\<close>

definition hasDirectionalStationSuffix :: "jsstring \<Rightarrow> bool" where
  "hasDirectionalStationSuffix name = list_ex (\<lambda>d. endsWith name [d, zhan]) directions"

definition isHan :: "nat \<Rightarrow> bool" where
  "isHan c \<longleftrightarrow> 0x4E00 \<le> c \<and> c \<le> 0x9FA5"

text \<open>
  \<open>/^[U+4E00-U+9FA5]{2,8}(E|W|S|N)?Z$/\<close>: for some \<open>k\<close> from 2 to 8 the first \<open>k\<close>
  code units are in the range, and what follows is the station character, alone or
  after one direction.
\<close>

definition isCityMainStyleName :: "jsstring \<Rightarrow> bool" where
  "isCityMainStyleName name =
     list_ex (\<lambda>k. k \<le> length name \<and> list_all isHan (take k name)
                \<and> (drop k name = [zhan] \<or> list_ex (\<lambda>d. drop k name = [d, zhan]) directions))
       [2, 3, 4, 5, 6, 7, 8]"

definition highSpeedWords :: "jsstring list" where
  "highSpeedWords = [[0x9AD8, 0x94C1],
                     [0x52A8, 0x8F66],
                     [0x57CE, 0x9645]]"

definition hasHighSpeedSignal :: "jsstring \<Rightarrow> bool" where
  "hasHighSpeedSignal name \<longleftrightarrow> testAny highSpeedWords name \<or> hasDirectionalStationSuffix name"

definition hubCities :: "jsstring list" where
  "hubCities =
     [[0x5317, 0x4EAC],
      [0x4E0A, 0x6D77],
      [0x5E7F, 0x5DDE],
      [0x6DF1, 0x5733],
      [0x6210, 0x90FD],
      [0x91CD, 0x5E86],
      [0x897F, 0x5B89],
      [0x6B66, 0x6C49],
      [0x676D, 0x5DDE],
      [0x5357, 0x4EAC],
      [0x5929, 0x6D25],
      [0x90D1, 0x5DDE],
      [0x957F, 0x6C99],
      [0x9752, 0x5C9B],
      [0x6606, 0x660E],
      [0x6C88, 0x9633],
      [0x53A6, 0x95E8],
      [0x798F, 0x5DDE],
      [0x5408, 0x80A5],
      [0x5357, 0x660C],
      [0x8D35, 0x9633],
      [0x5170, 0x5DDE],
      [0x4E4C, 0x9C81, 0x6728, 0x9F50]]"

text \<open>A hub city, then at most one direction, then the station character, anywhere.\<close>

definition isNationalHubStyleName :: "jsstring \<Rightarrow> bool" where
  "isNationalHubStyleName name =
     list_ex (\<lambda>city. list_ex (\<lambda>d. strIncludes name (city @ [d, zhan])) directions
                      \<or> strIncludes name (city @ [zhan]))
       hubCities"

section \<open>Train station profile\<close>

record TrainStationProfile =
  capacityScore :: int
  lineCountScore :: int
  lineCountEstimate :: int
  highSpeedScore :: int
  profileHasHighSpeedSignal :: bool
  compositeScore :: rat
  reasonTags :: "jsstring list"

text \<open>The five tags, in the order in which the function pushes them.\<close>

definition tagCityMatch :: jsstring where
  "tagCityMatch = [0x540C, 0x57CE, 0x4E3B, 0x7AD9, 0x4FE1, 0x53F7]"

definition tagCityMainStyle :: jsstring where
  "tagCityMainStyle = [0x4E3B, 0x7AD9, 0x547D, 0x540D]"

definition tagHighSpeed :: jsstring where
  "tagHighSpeed = [0x9AD8, 0x94C1, 0x4FE1, 0x53F7]"

definition tagNationalHub :: jsstring where
  "tagNationalHub = [0x5168, 0x56FD, 0x7EA7, 0x67A2, 0x7EBD, 0x547D, 0x540D]"

definition tagCountyLevel :: jsstring where
  "tagCountyLevel = [0x53BF, 0x9547, 0x7EA7, 0x547D, 0x540D]"

text \<open>
  The body of \<open>buildTrainStationProfile\<close> once the six signals are known, one definition
  for each of its local variables. The capacity score is built by the same sequence of
  conditional updates.
\<close>

definition capacityOfSignals :: "bool \<Rightarrow> bool \<Rightarrow> bool \<Rightarrow> bool \<Rightarrow> bool \<Rightarrow> bool \<Rightarrow> int" where
  "capacityOfSignals cityMatch countyLevel cityMainStyle directionalSuffix highSpeed nationalHubStyle =
     (let s0 = 20;
          s1 = (if cityMatch then s0 + 38 else s0);
          s2 = (if cityMainStyle then s1 + 20 else s1);
          s3 = (if directionalSuffix then s2 + 12 else s2);
          s4 = (if nationalHubStyle then s3 + 12 else s3);
          s5 = (if highSpeed then s4 + 10 else s4);
          s6 = (if countyLevel then s5 - 65 else s5)
      in clamp (MathRound (of_int s6)) 0 100)"

definition lineEstimateOf :: "int \<Rightarrow> bool \<Rightarrow> bool \<Rightarrow> bool \<Rightarrow> bool \<Rightarrow> int" where
  "lineEstimateOf capacity cityMatch countyLevel cityMainStyle highSpeed =
     (let rawLineEstimate =
            MathRound (fdiv (of_int capacity) 11)
              + (if cityMatch then 4 else 0)
              + (if highSpeed then 3 else 0)
              + (if cityMainStyle then 2 else 0)
              - (if countyLevel then 2 else 0)
      in clamp rawLineEstimate 1 24)"

definition lineScoreOf :: "int \<Rightarrow> int" where
  "lineScoreOf lineEstimate = clamp (MathRound (fmul (of_int lineEstimate) (fl (42 / 10)))) 0 100"

definition compositeOf :: "int \<Rightarrow> int \<Rightarrow> int \<Rightarrow> rat" where
  "compositeOf capacity lineScore hsScore =
     NumberToFixed1
       (fadd (fadd (fmul (of_int capacity) (fl (45 / 100)))
                   (fmul (of_int lineScore) (fl (35 / 100))))
             (fmul (of_int hsScore) (fl (2 / 10))))"

definition tagsOfSignals :: "bool \<Rightarrow> bool \<Rightarrow> bool \<Rightarrow> bool \<Rightarrow> bool \<Rightarrow> jsstring list" where
  "tagsOfSignals cityMatch countyLevel cityMainStyle highSpeed nationalHubStyle =
     (let t1 = (if cityMatch then [tagCityMatch] else []);
          t2 = (if cityMainStyle then t1 @ [tagCityMainStyle] else t1);
          t3 = (if highSpeed then t2 @ [tagHighSpeed] else t2);
          t4 = (if nationalHubStyle then t3 @ [tagNationalHub] else t3)
      in if countyLevel then t4 @ [tagCountyLevel] else t4)"

definition profileOfSignals :: "bool \<Rightarrow> bool \<Rightarrow> bool \<Rightarrow> bool \<Rightarrow> bool \<Rightarrow> bool \<Rightarrow> TrainStationProfile" where
  "profileOfSignals cityMatch countyLevel cityMainStyle directionalSuffix highSpeed nationalHubStyle =
     (let capacity =
            capacityOfSignals cityMatch countyLevel cityMainStyle directionalSuffix highSpeed
              nationalHubStyle;
          lineEstimate = lineEstimateOf capacity cityMatch countyLevel cityMainStyle highSpeed;
          lineScore = lineScoreOf lineEstimate;
          hsScore = (if highSpeed then 100 else 30)
      in \<lparr> capacityScore = capacity,
           lineCountScore = lineScore,
           lineCountEstimate = lineEstimate,
           highSpeedScore = hsScore,
           profileHasHighSpeedSignal = highSpeed,
           compositeScore = compositeOf capacity lineScore hsScore,
           reasonTags = tagsOfSignals cityMatch countyLevel cityMainStyle highSpeed nationalHubStyle \<rparr>)"

definition cityMatches :: "jsstring \<Rightarrow> jsstring \<Rightarrow> bool" where
  "cityMatches cityToken normalizedName \<longleftrightarrow> cityToken \<noteq> [] \<and> strIncludes normalizedName cityToken"

definition buildTrainStationProfile :: "jsstring \<Rightarrow> jsstring option \<Rightarrow> TrainStationProfile" where
  "buildTrainStationProfile name cityName =
     (let normalizedName = normalizeStationName name;
          cityToken = normalizeCityToken cityName;
          cityMatch = cityMatches cityToken normalizedName;
          countyLevel = isCountyLevelName normalizedName;
          cityMainStyle = isCityMainStyleName normalizedName;
          directionalSuffix = hasDirectionalStationSuffix normalizedName;
          highSpeed = hasHighSpeedSignal normalizedName;
          nationalHubStyle = isNationalHubStyleName normalizedName
      in profileOfSignals cityMatch countyLevel cityMainStyle directionalSuffix highSpeed
           nationalHubStyle)"


section \<open>Airport score\<close>

definition guojiJichang :: jsstring where
  "guojiJichang = [0x56FD, 0x9645, 0x673A, 0x573A]"

definition jichang :: jsstring where
  "jichang = [0x673A, 0x573A]"

definition smallAirportWords :: "jsstring list" where
  "smallAirportWords =
     [[0x901A, 0x7528],
      [0x76F4, 0x5347, 0x673A],
      [0x8BAD, 0x7EC3],
      [0x6821, 0x98DE],
      [0x8BD5, 0x98DE],
      [0x89C2, 0x5149],
      [0x822A, 0x6821],
      [0x4EA7, 0x4E1A, 0x56ED],
      [0x822A, 0x7A7A, 0x6E2F, 0x56ED, 0x533A],
      [0x673A, 0x5E93],
      [0x8425, 0x5730]]"

definition tagInternational :: jsstring where
  "tagInternational = [0x56FD, 0x9645, 0x673A, 0x573A]"

definition tagSameCity :: jsstring where
  "tagSameCity = [0x540C, 0x57CE, 0x673A, 0x573A]"

definition tagOtherCity :: jsstring where
  "tagOtherCity = [0x975E, 0x540C, 0x57CE, 0x673A, 0x573A]"

definition tagSmallAirport :: jsstring where
  "tagSmallAirport = [0x7591, 0x4F3C, 0x901A, 0x7528, 0x673A, 0x573A]"

definition tagDistancePrefix :: jsstring where
  "tagDistancePrefix = [0x8DDD, 0x79BB, 0x6263, 0x5206]"

text \<open>An integer inside a template literal.\<close>

definition decimalInt :: "int \<Rightarrow> jsstring" where
  "decimalInt n = (if n < 0 then 0x2D # decimal (nat (- n)) else decimal (nat n))"

text \<open>
  Distances are whole metres: the only producer, \<open>calcDistanceMeters\<close>, returns a
  \<open>Math.round\<close>. \<open>None\<close> is \<open>null\<close>.
\<close>

definition distancePenalty :: "int option \<Rightarrow> int" where
  "distancePenalty distanceMeters =
     min 85 (MathRound (fmul (fdiv (of_int (case distanceMeters of None \<Rightarrow> 120000 | Some d \<Rightarrow> d)) 1000)
                             (fl (65 / 100))))"

record AirportScore =
  score :: int
  scoreTags :: "jsstring list"

definition buildAirportScore :: "jsstring \<Rightarrow> jsstring option \<Rightarrow> int option \<Rightarrow> AirportScore" where
  "buildAirportScore name cityName distanceMeters =
     (let normalizedName = normalizeStationName name;
          cityToken = normalizeCityToken cityName;
          cityMatch = cityMatches cityToken normalizedName;
          isInternational = strIncludes normalizedName guojiJichang;
          isCommercialAirport = strIncludes normalizedName jichang;
          isSmallAirport = testAny smallAirportWords normalizedName;
          s0 = 30;
          s1 = (if isInternational then s0 + 45 else s0);
          s2 = (if isCommercialAirport then s1 + 18 else s1);
          s3 = (if cityMatch then s2 + 18 else s2);
          s4 = (if \<not> cityMatch \<and> cityToken \<noteq> [] then s3 - 18 else s3);
          s5 = (if isSmallAirport then s4 - 70 else s4);
          penalty = distancePenalty distanceMeters;
          t1 = (if isInternational then [tagInternational] else []);
          t2 = (if cityMatch then t1 @ [tagSameCity]
                else if cityToken \<noteq> [] then t1 @ [tagOtherCity] else t1);
          t3 = (if isSmallAirport then t2 @ [tagSmallAirport] else t2)
      in \<lparr> score = s5 - penalty,
           scoreTags = t3 @ [tagDistancePrefix @ decimalInt penalty] \<rparr>)"

section \<open>Canonical airport name\<close>

text \<open>Terminal, departure hall, satellite hall.\<close>

definition buildingWords :: "jsstring list" where
  "buildingWords = [[0x822A, 0x7AD9, 0x697C],
                    [0x5019, 0x673A, 0x697C],
                    [0x536B, 0x661F, 0x5385]]"

definition startsWithBuilding :: "jsstring \<Rightarrow> bool" where
  "startsWithBuilding s = list_ex (startsWith s) buildingWords"

definition isDigit :: "nat \<Rightarrow> bool" where
  "isDigit c \<longleftrightarrow> 0x30 \<le> c \<and> c \<le> 0x39"

definition isUpper :: "nat \<Rightarrow> bool" where
  "isUpper c \<longleftrightarrow> 0x41 \<le> c \<and> c \<le> 0x5A"

text \<open>The Han numerals one to ten and the digits 1 to 9.\<close>

definition isOrdinal :: "nat \<Rightarrow> bool" where
  "isOrdinal c \<longleftrightarrow>
     List.member [0x4E00, 0x4E8C, 0x4E09, 0x56DB, 0x4E94, 0x516D, 0x4E03, 0x516B, 0x4E5D, 0x5341] c
     \<or> (0x31 \<le> c \<and> c \<le> 0x39)"

definition hao :: nat where
  "hao = 0x53F7"

text \<open>\<open>\d+\<close> followed by a building word: one digit, then either the word or more of the same.\<close>

fun digitsThenBuilding :: "jsstring \<Rightarrow> bool" where
  "digitsThenBuilding [] = False"
| "digitsThenBuilding (c # cs) = (isDigit c \<and> (startsWithBuilding cs \<or> digitsThenBuilding cs))"

text \<open>
  A match of \<open>([A-Z]?\d+|[ordinal]HAO?)(building)\<close> at the start of the string. The rest of
  the pattern, \<open>.*\<close>, takes everything up to the end: the name has no line terminator
  left after \<open>normalizeStationName\<close>.
\<close>

definition terminalAt :: "jsstring \<Rightarrow> bool" where
  "terminalAt s =
     (case s of
        [] \<Rightarrow> False
      | c # cs \<Rightarrow>
          (isUpper c \<and> digitsThenBuilding cs) \<or> digitsThenBuilding s
          \<or> (isOrdinal c
              \<and> ((case cs of [] \<Rightarrow> False | d # ds \<Rightarrow> d = hao \<and> startsWithBuilding ds)
                 \<or> startsWithBuilding cs)))"

text \<open>Both replacements cut the string at the leftmost position where the pattern matches.\<close>

fun cutAt :: "(jsstring \<Rightarrow> bool) \<Rightarrow> jsstring \<Rightarrow> jsstring" where
  "cutAt P [] = []"
| "cutAt P (c # cs) = (if P (c # cs) then [] else c # cutAt P cs)"

text \<open>\<open>indexOf\<close>, with \<open>None\<close> for -1.\<close>

fun indexOf :: "jsstring \<Rightarrow> jsstring \<Rightarrow> nat option" where
  "indexOf [] t = (if t = [] then Some 0 else None)"
| "indexOf (c # cs) t =
     (if startsWith (c # cs) t then Some 0 else map_option Suc (indexOf cs t))"

definition canonicalAirportName :: "jsstring \<Rightarrow> jsstring" where
  "canonicalAirportName name =
     (let normalizedName = normalizeStationName name
      in case indexOf normalizedName jichang of
           Some airportIndex \<Rightarrow> take (airportIndex + 2) normalizedName
         | None \<Rightarrow> trim (cutAt startsWithBuilding (cutAt terminalAt normalizedName)))"

section \<open>Hub results\<close>

datatype HubKind = subway | train | highspeed | airport

record HubCandidate =
  cand_name :: jsstring
  cand_address :: jsstring
  cand_distanceMeters :: "int option"
  cand_score :: rat
  cand_reasonTags :: "jsstring list"

text \<open>An optional field that is absent is \<open>None\<close>.\<close>

record HubResult =
  kind :: HubKind
  kindLabel :: jsstring
  name :: jsstring
  address :: jsstring
  distanceMeters :: "int option"
  latitude :: jsnumber
  longitude :: jsnumber
  highSpeedQueryHit :: "bool option"
  trainProfile :: "TrainStationProfile option"
  topCandidates :: "HubCandidate list option"

definition truthy :: "bool option \<Rightarrow> bool" where
  "truthy b = (case b of None \<Rightarrow> False | Some v \<Rightarrow> v)"

text \<open>\<open>distanceMeters ?? Number.MAX_SAFE_INTEGER\<close>\<close>

definition distanceOrMax :: "int option \<Rightarrow> int" where
  "distanceOrMax d = (case d of None \<Rightarrow> MAX_SAFE_INTEGER | Some n \<Rightarrow> n)"

section \<open>Sorting\<close>

text \<open>
  \<open>Array.prototype.sort\<close> with a comparison function is a stable sort: \<open>a\<close> stays before
  \<open>b\<close> unless the comparison of \<open>a\<close> with \<open>b\<close> is positive. The model inserts each
  element, from the last to the first, in front of the sorted rest.
\<close>

fun insertBy :: "('a \<Rightarrow> 'a \<Rightarrow> rat) \<Rightarrow> 'a \<Rightarrow> 'a list \<Rightarrow> 'a list" where
  "insertBy cmp x [] = [x]"
| "insertBy cmp x (y # ys) = (if cmp x y \<le> 0 then x # y # ys else y # insertBy cmp x ys)"

definition sortBy :: "('a \<Rightarrow> 'a \<Rightarrow> rat) \<Rightarrow> 'a list \<Rightarrow> 'a list" where
  "sortBy cmp xs = foldr (insertBy cmp) xs []"

text \<open>
  A comparison function is consistent when \<open>cmp a b \<le> 0\<close> is a total preorder; the
  result of the sort is then ordered by it.
\<close>

definition consistent :: "('a \<Rightarrow> 'a \<Rightarrow> rat) \<Rightarrow> bool" where
  "consistent cmp \<longleftrightarrow>
     (\<forall>a b. cmp a b \<le> 0 \<or> cmp b a \<le> 0)
     \<and> (\<forall>a b c. cmp a b \<le> 0 \<longrightarrow> cmp b c \<le> 0 \<longrightarrow> cmp a c \<le> 0)"

section \<open>Deduplication\<close>

text \<open>
  The key of a hub. \<open>toFixed6\<close> stands for \<open>Number.prototype.toFixed\<close> with six digits;
  \<open>dedupeHubs\<close> only compares the strings it returns.
\<close>

definition hubKey :: "(jsnumber \<Rightarrow> jsstring) \<Rightarrow> HubResult \<Rightarrow> jsstring" where
  "hubKey toFixed6 item =
     name item @ [0x7C] @ toFixed6 (latitude item) @ [0x7C] @ toFixed6 (longitude item)"

text \<open>
  The \<open>Map\<close> is an association list in insertion order; \<open>AList.update\<close> keeps the place
  of a key that is present and appends a new one, as \<open>Map.prototype.set\<close> does.
\<close>

definition dedupeStep ::
  "(jsnumber \<Rightarrow> jsstring) \<Rightarrow> (jsstring \<times> HubResult) list \<Rightarrow> HubResult \<Rightarrow> (jsstring \<times> HubResult) list" where
  "dedupeStep toFixed6 byKey item =
     (let key = hubKey toFixed6 item
      in case map_of byKey key of
           None \<Rightarrow> AList.update key item byKey
         | Some existing \<Rightarrow>
             (let existingDistance = distanceOrMax (distanceMeters existing);
                  nextDistance = distanceOrMax (distanceMeters item)
              in AList.update key
                   ((if nextDistance < existingDistance then item else existing)
                      \<lparr> highSpeedQueryHit :=
                          Some (truthy (highSpeedQueryHit existing) \<or> truthy (highSpeedQueryHit item)) \<rparr>)
                   byKey))"

definition dedupeHubs :: "(jsnumber \<Rightarrow> jsstring) \<Rightarrow> HubResult list \<Rightarrow> HubResult list" where
  "dedupeHubs toFixed6 items = map snd (foldl (dedupeStep toFixed6) [] items)"

section \<open>Picking the train hub\<close>

text \<open>The two steps before scoring: the county filter, then city-named stations first.\<close>

definition trainWorking :: "HubResult list \<Rightarrow> jsstring option \<Rightarrow> HubResult list" where
  "trainWorking candidates cityName =
     (let cityToken = normalizeCityToken cityName;
          nonCounty = filter (\<lambda>item. \<not> isCountyLevelName (name item)) candidates;
          working = (if 3 \<le> length nonCounty then nonCounty else candidates)
      in if cityToken \<noteq> [] then
           (let cityNamed =
                  filter (\<lambda>item. strIncludes (normalizeStationName (name item)) cityToken) working
            in if 2 \<le> length cityNamed then
                 cityNamed
                   @ filter (\<lambda>item. \<not> strIncludes (normalizeStationName (name item)) cityToken)
                       working
               else working)
         else working)"

text \<open>
  The comparison function of the train ranking. An element of the ranked list is the
  candidate together with the profile stored in its \<open>trainProfile\<close> field. Only the
  sign of the result matters to the sort, so the subtractions are exact.
\<close>

definition trainCompare ::
  "HubResult \<times> TrainStationProfile \<Rightarrow> HubResult \<times> TrainStationProfile \<Rightarrow> rat" where
  "trainCompare a b =
     (let profileA = snd a; profileB = snd b
      in if compositeScore profileB \<noteq> compositeScore profileA
           then compositeScore profileB - compositeScore profileA
         else if lineCountEstimate profileB \<noteq> lineCountEstimate profileA
           then of_int (lineCountEstimate profileB - lineCountEstimate profileA)
         else of_int (distanceOrMax (distanceMeters (fst a))
                        - distanceOrMax (distanceMeters (fst b))))"

definition trainCandidate :: "HubResult \<times> TrainStationProfile \<Rightarrow> HubCandidate" where
  "trainCandidate item =
     \<lparr> cand_name = name (fst item),
       cand_address = address (fst item),
       cand_distanceMeters = distanceMeters (fst item),
       cand_score = compositeScore (snd item),
       cand_reasonTags = reasonTags (snd item) \<rparr>"

definition trainFiltered ::
  "HubResult list \<Rightarrow> jsstring option \<Rightarrow> bool \<Rightarrow> (HubResult \<times> TrainStationProfile) list" where
  "trainFiltered candidates cityName highSpeedOnly =
     (let rankedSource =
            map (\<lambda>item. (item, buildTrainStationProfile (name item) cityName))
              (trainWorking candidates cityName)
      in if highSpeedOnly then
           filter (\<lambda>item. profileHasHighSpeedSignal (snd item) \<and> truthy (highSpeedQueryHit (fst item)))
             rankedSource
         else rankedSource)"

text \<open>\<open>highSpeedOnly\<close> is \<open>options?.highSpeedOnly\<close>, false when the options are absent.\<close>

definition pickBestTrainHub :: "HubResult list \<Rightarrow> jsstring option \<Rightarrow> bool \<Rightarrow> HubResult option" where
  "pickBestTrainHub candidates cityName highSpeedOnly =
     (if candidates = [] then None
      else
        (let filteredSource = trainFiltered candidates cityName highSpeedOnly
         in if filteredSource = [] then None
            else
              (let ranked = sortBy trainCompare filteredSource;
                   top = map trainCandidate (take 3 ranked)
               in case ranked of
                    [] \<Rightarrow> None
                  | primary # rest \<Rightarrow>
                      Some ((fst primary)
                              \<lparr> trainProfile := Some (snd primary), topCandidates := Some top \<rparr>))))"

section \<open>Picking the airport hub\<close>

text \<open>\<open>grouped.get(key) ?? []\<close>, \<open>push\<close>, \<open>grouped.set\<close>: the groups keep the order of their first member.\<close>

fun addToGroup :: "jsstring \<Rightarrow> HubResult \<Rightarrow> (jsstring \<times> HubResult list) list \<Rightarrow> (jsstring \<times> HubResult list) list" where
  "addToGroup key item [] = [(key, [item])]"
| "addToGroup key item ((k, members) # groups) =
     (if k = key then (k, members @ [item]) # groups else (k, members) # addToGroup key item groups)"

definition groupAirports :: "HubResult list \<Rightarrow> (jsstring \<times> HubResult list) list" where
  "groupAirports candidates =
     foldl (\<lambda>grouped item. addToGroup (canonicalAirportName (name item)) item grouped) [] candidates"

definition distanceCompare :: "HubResult \<Rightarrow> HubResult \<Rightarrow> rat" where
  "distanceCompare a b =
     of_int (distanceOrMax (distanceMeters a) - distanceOrMax (distanceMeters b))"

text \<open>
  The nearest member of each group, \<open>[...items].sort(...)[0]\<close>. A group is never empty
  (lemma \<open>groupAirports_nonempty\<close>), so the first element always exists.
\<close>

definition airportWorking :: "HubResult list \<Rightarrow> HubResult list" where
  "airportWorking candidates =
     concat (map (\<lambda>group. take 1 (sortBy distanceCompare (snd group))) (groupAirports candidates))"

definition airportCompare :: "HubResult \<times> AirportScore \<Rightarrow> HubResult \<times> AirportScore \<Rightarrow> rat" where
  "airportCompare a b =
     (if score (snd b) \<noteq> score (snd a) then of_int (score (snd b) - score (snd a))
      else of_int (distanceOrMax (distanceMeters (fst a)) - distanceOrMax (distanceMeters (fst b))))"

definition airportCandidate :: "HubResult \<times> AirportScore \<Rightarrow> HubCandidate" where
  "airportCandidate row =
     \<lparr> cand_name = name (fst row),
       cand_address = address (fst row),
       cand_distanceMeters = distanceMeters (fst row),
       cand_score = of_int (score (snd row)),
       cand_reasonTags = scoreTags (snd row) \<rparr>"

definition airportRanked :: "HubResult list \<Rightarrow> jsstring option \<Rightarrow> (HubResult \<times> AirportScore) list" where
  "airportRanked candidates cityName =
     sortBy airportCompare
       (map (\<lambda>item. (item, buildAirportScore (name item) cityName (distanceMeters item)))
          (airportWorking candidates))"

definition pickBestAirportHub :: "HubResult list \<Rightarrow> jsstring option \<Rightarrow> HubResult option" where
  "pickBestAirportHub candidates cityName =
     (if candidates = [] then None
      else
        (let ranked = airportRanked candidates cityName;
             top = map airportCandidate (take 3 ranked)
         in case ranked of
              [] \<Rightarrow> None
            | row # rest \<Rightarrow> Some ((fst row) \<lparr> topCandidates := Some top \<rparr>)))"


section \<open>The ranking orders of the specification\<close>

text \<open>
  The order the specification gives for the entries of \<open>topCandidates\<close>, in its words,
  for comparison with the code. Train: descending score, then descending line count
  estimate, then ascending distance, a missing distance last. The line count estimate
  of an entry is the one of the profile of its name.
\<close>

definition specTrainOrder :: "jsstring option \<Rightarrow> HubCandidate \<Rightarrow> HubCandidate \<Rightarrow> bool" where
  "specTrainOrder cityName a b \<longleftrightarrow>
     cand_score b < cand_score a
     \<or> (cand_score a = cand_score b
        \<and> (lineCountEstimate (buildTrainStationProfile (cand_name b) cityName)
              < lineCountEstimate (buildTrainStationProfile (cand_name a) cityName)
           \<or> (lineCountEstimate (buildTrainStationProfile (cand_name a) cityName)
                = lineCountEstimate (buildTrainStationProfile (cand_name b) cityName)
              \<and> distanceOrMax (cand_distanceMeters a) \<le> distanceOrMax (cand_distanceMeters b))))"

text \<open>Airport: descending score, then ascending distance, a missing distance last.\<close>

definition specAirportOrder :: "HubCandidate \<Rightarrow> HubCandidate \<Rightarrow> bool" where
  "specAirportOrder a b \<longleftrightarrow>
     cand_score b < cand_score a
     \<or> (cand_score a = cand_score b
        \<and> distanceOrMax (cand_distanceMeters a) \<le> distanceOrMax (cand_distanceMeters b))"

section \<open>Strings to numbers\<close>

text \<open>
  \<open>Number(string)\<close>. The value of a numeric literal is rounded to binary64: as \<open>fl\<close>
  does in the normal range, with the fixed spacing \<open>2 ^ -1074\<close> below it, and to an
  infinity from \<open>2 ^ 1024\<close> on.
\<close>

definition binary64 :: "rat \<Rightarrow> jsnumber" where
  "binary64 x =
     (if x = 0 then Finite 0
      else
        (let e = max (binExponent \<bar>x\<bar>) (- 1022);
             u = 2 powi (e - 52);
             r = of_int (roundTiesToEven (x / u)) * u
         in if 2 ^ 1024 \<le> \<bar>r\<bar> then (if 0 < x then PlusInfinity else MinusInfinity)
            else Finite r))"

definition negate :: "jsnumber \<Rightarrow> jsnumber" where
  "negate v =
     (case v of
        NaN \<Rightarrow> NaN
      | Finite x \<Rightarrow> Finite (- x)
      | PlusInfinity \<Rightarrow> MinusInfinity
      | MinusInfinity \<Rightarrow> PlusInfinity)"

text \<open>The value of a digit in a base up to 16, \<open>None\<close> for any other character.\<close>

definition digitOf :: "nat \<Rightarrow> nat \<Rightarrow> nat option" where
  "digitOf base c =
     (let v = (if 0x30 \<le> c \<and> c \<le> 0x39 then Some (c - 0x30)
               else if 0x61 \<le> c \<and> c \<le> 0x66 then Some (c - 0x61 + 10)
               else if 0x41 \<le> c \<and> c \<le> 0x46 then Some (c - 0x41 + 10)
               else None)
      in case v of None \<Rightarrow> None | Some d \<Rightarrow> if d < base then Some d else None)"

text \<open>One or more digits of the base, and nothing else.\<close>

definition digitsOf :: "nat \<Rightarrow> jsstring \<Rightarrow> nat option" where
  "digitsOf base ds =
     (if ds \<noteq> [] \<and> list_all (\<lambda>c. digitOf base c \<noteq> None) ds
      then Some (foldl (\<lambda>a c. base * a + (case digitOf base c of None \<Rightarrow> 0 | Some d \<Rightarrow> d)) 0 ds)
      else None)"

text \<open>\<open>0x\<close>, \<open>0o\<close> or \<open>0b\<close>, in either case, and digits of that base; no sign.\<close>

definition nonDecimalLiteral :: "jsstring \<Rightarrow> nat option" where
  "nonDecimalLiteral s =
     (case s of
        z # p # ds \<Rightarrow>
          if z \<noteq> 0x30 then None
          else if p = 0x78 \<or> p = 0x58 then digitsOf 16 ds
          else if p = 0x6F \<or> p = 0x4F then digitsOf 8 ds
          else if p = 0x62 \<or> p = 0x42 then digitsOf 2 ds
          else None
      | _ \<Rightarrow> None)"

text \<open>The exponent part after its letter: an optional sign and decimal digits.\<close>

definition signedInteger :: "jsstring \<Rightarrow> int option" where
  "signedInteger s =
     (case s of
        [] \<Rightarrow> None
      | c # cs \<Rightarrow>
          if c = 0x2D then map_option (\<lambda>n. - int n) (digitsOf 10 cs)
          else if c = 0x2B then map_option int (digitsOf 10 cs)
          else map_option int (digitsOf 10 s))"

text \<open>Digits with at most one point, and a digit on one side of it at least.\<close>

definition decimalMantissa :: "jsstring \<Rightarrow> rat option" where
  "decimalMantissa s =
     (let i = takeWhile (\<lambda>c. c \<noteq> 0x2E) s; r = dropWhile (\<lambda>c. c \<noteq> 0x2E) s
      in case r of
           [] \<Rightarrow> map_option of_nat (digitsOf 10 i)
         | point # f \<Rightarrow>
             if i = [] then map_option (\<lambda>n. of_nat n / 10 ^ length f) (digitsOf 10 f)
             else if f = [] then map_option of_nat (digitsOf 10 i)
             else
               (case (digitsOf 10 i, digitsOf 10 f) of
                  (Some a, Some b) \<Rightarrow> Some (of_nat a + of_nat b / 10 ^ length f)
                | _ \<Rightarrow> None))"

definition isExponentLetter :: "nat \<Rightarrow> bool" where
  "isExponentLetter c \<longleftrightarrow> c = 0x65 \<or> c = 0x45"

text \<open>An unsigned decimal literal: \<open>Infinity\<close>, or a mantissa and an optional exponent part.\<close>

definition unsignedDecimalLiteral :: "jsstring \<Rightarrow> jsnumber" where
  "unsignedDecimalLiteral s =
     (if s = [0x0049, 0x006E, 0x0066, 0x0069, 0x006E, 0x0069, 0x0074, 0x0079] then PlusInfinity
      else
        (let m = takeWhile (\<lambda>c. \<not> isExponentLetter c) s;
             r = dropWhile (\<lambda>c. \<not> isExponentLetter c) s
         in case decimalMantissa m of
              None \<Rightarrow> NaN
            | Some v \<Rightarrow>
                (case r of
                   [] \<Rightarrow> binary64 v
                 | letter # ex \<Rightarrow>
                     (case signedInteger ex of
                        None \<Rightarrow> NaN
                      | Some k \<Rightarrow> binary64 (v * 10 powi k)))))"

definition StringToNumber :: "jsstring \<Rightarrow> jsnumber" where
  "StringToNumber s =
     (let t = trim s
      in case t of
           [] \<Rightarrow> Finite 0
         | c # cs \<Rightarrow>
             (case nonDecimalLiteral t of
                Some n \<Rightarrow> binary64 (of_nat n)
              | None \<Rightarrow>
                  if c = 0x2D then negate (unsignedDecimalLiteral cs)
                  else if c = 0x2B then unsignedDecimalLiteral cs
                  else unsignedDecimalLiteral t))"

section \<open>Locations\<close>

text \<open>\<open>String.prototype.split\<close> with a one-character separator.\<close>

fun splitOn :: "nat \<Rightarrow> jsstring \<Rightarrow> jsstring list" where
  "splitOn sep [] = [[]]"
| "splitOn sep (c # cs) =
     (if c = sep then [] # splitOn sep cs
      else (case splitOn sep cs of [] \<Rightarrow> [[c]] | t # ts \<Rightarrow> (c # t) # ts))"

text \<open>An array element, \<open>None\<close> for \<open>undefined\<close> beyond the end.\<close>

definition element :: "'a list \<Rightarrow> nat \<Rightarrow> 'a option" where
  "element xs i = (if i < length xs then Some (xs ! i) else None)"

text \<open>\<open>Number(v)\<close> for a string or \<open>undefined\<close>; \<open>Number(undefined)\<close> is \<open>NaN\<close>.\<close>

definition NumberOf :: "jsstring option \<Rightarrow> jsnumber" where
  "NumberOf v = (case v of None \<Rightarrow> NaN | Some s \<Rightarrow> StringToNumber s)"

text \<open>The result is the pair \<open>(longitude, latitude)\<close>; \<open>None\<close> is \<open>null\<close>.\<close>

definition parseLocation :: "jsstring \<Rightarrow> (jsnumber \<times> jsnumber) option" where
  "parseLocation location =
     (let tokens = splitOn 0x2C location;
          lng = element tokens 0;
          lat = element tokens 1;
          longitude = NumberOf lng;
          latitude = NumberOf lat
      in if longitude = NaN \<or> latitude = NaN then None else Some (longitude, latitude))"

section \<open>Calls to the provider\<close>

text \<open>
  What a call of \<open>fetch\<close> followed by \<open>response.json()\<close> can yield: the promise is
  rejected, or there is a response with its \<open>ok\<close> flag, its status and the parsed body.
  The answer of the provider is an input of the model; the throttle before each call
  only delays it.
\<close>

record 'p ProviderJson =
  json_status :: "jsstring option"
  json_infocode :: "jsstring option"
  json_info :: "jsstring option"
  json_items :: "'p list option"

datatype 'p FetchOutcome = Rejected | Resolved bool nat "'p ProviderJson"

text \<open>What a call can throw: the error class of the service, or the rejection of \<open>fetch\<close>.\<close>

datatype error = AmapApiError jsstring "jsstring option" | FetchRejected

definition requestFailedMessage :: jsstring where
  "requestFailedMessage = [0x9AD8, 0x5FB7, 0x8BF7, 0x6C42, 0x5931, 0x8D25, 0x003A, 0x0020]"

definition providerErrorMessage :: jsstring where
  "providerErrorMessage = [0x9AD8, 0x5FB7, 0x63A5, 0x53E3, 0x9519, 0x8BEF, 0x003A, 0x0020]"

definition orElse :: "'a option \<Rightarrow> 'a \<Rightarrow> 'a" where
  "orElse v d = (case v of None \<Rightarrow> d | Some x \<Rightarrow> x)"

text \<open>The part that \<open>fetchAroundPois\<close> and \<open>fetchTextPois\<close> share, from \<open>fetch\<close> on.\<close>

definition readPois :: "'p FetchOutcome \<Rightarrow> error + 'p list" where
  "readPois outcome =
     (case outcome of
        Rejected \<Rightarrow> Inl FetchRejected
      | Resolved ok status json \<Rightarrow>
          if \<not> ok then Inl (AmapApiError (requestFailedMessage @ decimal status) None)
          else if json_status json \<noteq> Some [0x31] then
            Inl (AmapApiError
                   (providerErrorMessage @ orElse (json_info json) [0x0075, 0x006E, 0x006B, 0x006E, 0x006F, 0x0077, 0x006E]
                      @ [0x20, 0x28] @ orElse (json_infocode json) [0x006E, 0x002F, 0x0061] @ [0x29])
                   (json_infocode json))
          else Inr (orElse (json_items json) []))"

definition fetchAroundPois :: "'p FetchOutcome \<Rightarrow> error + 'p list" where
  "fetchAroundPois outcome = readPois outcome"

text \<open>Without a city there is no call at all.\<close>

definition fetchTextPois :: "jsstring \<Rightarrow> 'p FetchOutcome \<Rightarrow> error + 'p list" where
  "fetchTextPois cityName outcome = (if trim cityName = [] then Inr [] else readPois outcome)"

section \<open>Address suggestions\<close>

record AddressSuggestion =
  sug_id :: jsstring
  sug_name :: jsstring
  sug_address :: jsstring
  sug_latitude :: jsnumber
  sug_longitude :: jsnumber

record RawTip =
  tip_id :: "jsstring option"
  tip_name :: "jsstring option"
  tip_district :: "jsstring option"
  tip_address :: "jsstring option"
  tip_location :: "jsstring option"

record RawPoi =
  poi_id :: "jsstring option"
  poi_name :: "jsstring option"
  poi_address :: "jsstring option"
  poi_pname :: "jsstring option"
  poi_cityname :: "jsstring option"
  poi_adname :: "jsstring option"
  poi_location :: "jsstring option"

definition hotelBrands :: "jsstring list" where
  "hotelBrands =
     [[0x6C49, 0x5EAD],
      [0x5982, 0x5BB6],
      [0x5168, 0x5B63],
      [0x4E9A, 0x6735],
      [0x9526, 0x6C5F],
      [0x0037, 0x5929],
      [0x683C, 0x6797, 0x8C6A, 0x6CF0],
      [0x7EF4, 0x4E5F, 0x7EB3],
      [0x6854, 0x5B50],
      [0x5586, 0x5561],
      [0x9152, 0x5E97]]"

definition exhaustedMessage :: jsstring where
  "exhaustedMessage =
     [0x6682, 0x65E0, 0x53EF, 0x7528, 0x5019, 0x9009, 0xFF0C, 0x8BF7, 0x7A0D, 0x540E, 0x91CD, 0x8BD5, 0x6216, 0x8865, 0x5145, 0x5173, 0x952E, 0x8BCD]"

text \<open>The variant of \<open>parseLocation\<close> in this module: an absent or empty location is \<open>null\<close>.\<close>

definition parseLocationOpt :: "jsstring option \<Rightarrow> (jsnumber \<times> jsnumber) option" where
  "parseLocationOpt location =
     (case location of
        None \<Rightarrow> None
      | Some l \<Rightarrow> if l = [] then None else parseLocation l)"

text \<open>\<open>parts.filter(Boolean).join(' ')\<close>\<close>

definition joinPresent :: "jsstring option list \<Rightarrow> jsstring" where
  "joinPresent parts =
     (case filter (\<lambda>p. p \<noteq> []) (map (\<lambda>p. orElse p []) parts) of
        [] \<Rightarrow> []
      | w # ws \<Rightarrow> foldl (\<lambda>acc v. acc @ [0x20] @ v) w ws)"

definition makeSuggestion ::
  "jsstring option \<Rightarrow> jsstring option \<Rightarrow> jsstring option \<Rightarrow> jsstring option list
     \<Rightarrow> AddressSuggestion option" where
  "makeSuggestion ident nm location addressParts =
     (case parseLocationOpt location of
        None \<Rightarrow> None
      | Some point \<Rightarrow>
          if orElse nm [] = [] then None
          else
            (let address = joinPresent addressParts
             in Some \<lparr> sug_id = orElse ident (orElse nm [] @ [0x2D] @ orElse location []),
                       sug_name = orElse nm [],
                       sug_address = (if address = [] then [0x672A, 0x77E5, 0x5730, 0x5740] else address),
                       sug_latitude = snd point,
                       sug_longitude = fst point \<rparr>))"

definition poiSuggestions :: "RawPoi list \<Rightarrow> AddressSuggestion list" where
  "poiSuggestions pois =
     List.map_filter
       (\<lambda>poi. makeSuggestion (poi_id poi) (poi_name poi) (poi_location poi)
                [poi_pname poi, poi_cityname poi, poi_adname poi, poi_address poi])
       pois"

definition tipSuggestions :: "RawTip list \<Rightarrow> AddressSuggestion list" where
  "tipSuggestions tips =
     List.map_filter
       (\<lambda>tip. makeSuggestion (tip_id tip) (tip_name tip) (tip_location tip)
                [tip_district tip, tip_address tip])
       tips"

text \<open>How the loop over the keyword variants ends: by \<open>return\<close>, by a throw, or normally.\<close>

datatype loopEnd =
  Returned "AddressSuggestion list" | Thrown error | Completed "AddressSuggestion list"

text \<open>
  The loop of the text search. \<open>textFetch\<close> gives the outcome of the call for a keyword.
  The loop reads the cache again after the call has been awaited, when another
  resolution may have stored an entry: \<open>cacheAfter\<close> gives, for a keyword, the entry
  found under the key at that moment.
\<close>

fun textLoop ::
  "(jsstring \<Rightarrow> RawPoi FetchOutcome) \<Rightarrow> (jsstring \<Rightarrow> AddressSuggestion list option)
     \<Rightarrow> int \<Rightarrow> jsstring list \<Rightarrow> AddressSuggestion list \<Rightarrow> loopEnd" where
  "textLoop textFetch cacheAfter limit [] poiList = Completed poiList"
| "textLoop textFetch cacheAfter limit (keywordText # rest) poiList =
     (case textFetch keywordText of
        Rejected \<Rightarrow> Thrown FetchRejected
      | Resolved ok status json \<Rightarrow>
          if \<not> ok then textLoop textFetch cacheAfter limit rest poiList
          else if json_status json = Some [0x31] then
            (let poiList' = poiSuggestions (orElse (json_items json) [])
             in if limit \<le> int (length poiList') then Completed poiList'
                else textLoop textFetch cacheAfter limit rest poiList')
          else if json_infocode json = Some [0x0031, 0x0030, 0x0030, 0x0032, 0x0031]
                  \<and> orElse (cacheAfter keywordText) [] \<noteq> [] then
            Returned (orElse (cacheAfter keywordText) [])
          else if limit \<le> int (length poiList) then Completed poiList
          else textLoop textFetch cacheAfter limit rest poiList)"

text \<open>The input tips, inside \<open>try\<close>: every failure leaves the list empty.\<close>

definition tipList :: "RawTip FetchOutcome \<Rightarrow> AddressSuggestion list" where
  "tipList outcome =
     (case outcome of
        Rejected \<Rightarrow> []
      | Resolved ok status json \<Rightarrow>
          if ok \<and> json_status json = Some [0x31]
          then tipSuggestions (orElse (json_items json) [])
          else [])"

definition suggestionKey :: "(jsnumber \<Rightarrow> jsstring) \<Rightarrow> AddressSuggestion \<Rightarrow> jsstring" where
  "suggestionKey toFixed6 item =
     sug_name item @ [0x7C] @ toFixed6 (sug_latitude item) @ [0x7C] @ toFixed6 (sug_longitude item)"

fun dedupeSuggestions ::
  "(jsnumber \<Rightarrow> jsstring) \<Rightarrow> int \<Rightarrow> jsstring list \<Rightarrow> AddressSuggestion list
     \<Rightarrow> AddressSuggestion list \<Rightarrow> AddressSuggestion list" where
  "dedupeSuggestions toFixed6 limit seen deduped [] = deduped"
| "dedupeSuggestions toFixed6 limit seen deduped (item # items) =
     (let keyOfItem = suggestionKey toFixed6 item
      in if List.member seen keyOfItem then dedupeSuggestions toFixed6 limit seen deduped items
         else if limit \<le> int (length (deduped @ [item])) then deduped @ [item]
         else dedupeSuggestions toFixed6 limit (keyOfItem # seen) (deduped @ [item]) items)"

text \<open>
  \<open>fetchAddressSuggestions\<close>, the version with the cache. \<open>cachedAtStart\<close> is the entry
  the cache holds under the key when the function starts. The second component of the
  result is the entry the function stores, if it stores one. \<open>limit\<close> is a whole number.
\<close>

definition cacheKeyOf :: "jsstring \<Rightarrow> jsstring option \<Rightarrow> int \<Rightarrow> jsstring" where
  "cacheKeyOf trimmed city limit = trimmed @ [0x7C] @ orElse city [] @ [0x7C] @ decimalInt limit"

definition fetchAddressSuggestions ::
  "(jsnumber \<Rightarrow> jsstring) \<Rightarrow> (jsstring \<Rightarrow> RawPoi FetchOutcome) \<Rightarrow> RawTip FetchOutcome
     \<Rightarrow> (jsstring \<Rightarrow> AddressSuggestion list option)
     \<Rightarrow> (jsstring \<Rightarrow> jsstring \<Rightarrow> AddressSuggestion list option)
     \<Rightarrow> jsstring \<Rightarrow> jsstring option \<Rightarrow> int
     \<Rightarrow> (error + AddressSuggestion list) \<times> (jsstring \<times> AddressSuggestion list) option" where
  "fetchAddressSuggestions toFixed6 textFetch tipFetch cachedAtStart cacheAfter keyword city limit =
     (let trimmed = trim keyword
      in if trimmed = [] then (Inr [], None)
         else
           (let cacheKey = cacheKeyOf trimmed city limit;
                cached = cachedAtStart cacheKey
            in if orElse cached [] \<noteq> [] then (Inr (orElse cached []), None)
               else
                 (let keywordVariants =
                        (if testAny hotelBrands trimmed
                         then [trimmed, trimmed @ [0x9152, 0x5E97]]
                         else [trimmed])
                  in case textLoop textFetch (cacheAfter cacheKey) limit keywordVariants [] of
                       Returned quickCache \<Rightarrow> (Inr quickCache, None)
                     | Thrown e \<Rightarrow> (Inl e, None)
                     | Completed poiList \<Rightarrow>
                         (let merged = tipList tipFetch @ poiList;
                              deduped = dedupeSuggestions toFixed6 limit [] [] merged
                          in if deduped = [] then (Inl (AmapApiError exhaustedMessage None), None)
                             else (Inr deduped, Some (cacheKey, deduped))))))"

section \<open>Rounding to binary64\<close>

lemma of_nat_le_pow2: "n \<le> 2 ^ k \<Longrightarrow> (of_nat n :: rat) \<le> 2 ^ k"
  by (metis of_nat_le_iff of_nat_numeral of_nat_power)

lemma pow2_le_of_nat: "2 ^ k \<le> n \<Longrightarrow> (2 :: rat) ^ k \<le> of_nat n"
  by (metis of_nat_le_iff of_nat_numeral of_nat_power)

lemma binExponent_bounds:
  assumes "0 < x"
  shows "2 powi (binExponent x) \<le> x" and "x < 2 powi (binExponent x + 1)"
proof -
  have "2 powi (binExponent x) \<le> x \<and> x < 2 powi (binExponent x + 1)"
  proof (cases "1 \<le> x")
    case True
    define n where "n = nat \<lfloor>x\<rfloor>"
    have n1: "0 < n" using True by (simp add: n_def)
    have nx: "of_nat n \<le> x" "x < of_nat n + 1"
      using True by (simp_all add: n_def) linarith+
    define f where "f = floorlog 2 n"
    from floorlog_bounds[OF n1, of 2] have fb: "2 ^ (f - 1) \<le> n" "n < 2 ^ f"
      by (simp_all add: f_def)
    have f1: "1 \<le> f" using fb n1 by (cases f) auto
    have e: "binExponent x = int f - 1"
      using True by (simp add: binExponent_def n_def f_def)
    have "(2::rat) powi (int f - 1) = 2 ^ (f - 1)"
      using f1 by (simp add: power_int_def nat_diff_distrib' of_nat_diff)
    moreover have "(2::rat) ^ (f - 1) \<le> of_nat n"
      using fb(1) by (rule pow2_le_of_nat)
    moreover have "(of_nat n + 1 :: rat) \<le> 2 ^ f"
    proof -
      have "n + 1 \<le> 2 ^ f" using fb(2) by simp
      then have "(of_nat (n + 1) :: rat) \<le> 2 ^ f" by (rule of_nat_le_pow2)
      then show ?thesis by simp
    qed
    moreover have "(2::rat) powi (int f - 1 + 1) = 2 ^ f" by simp
    ultimately show ?thesis using nx e by (metis le_less_trans less_le_trans order_trans)
  next
    case False
    define t where "t = 1 / x"
    have t1: "1 < t" using False assms by (simp add: t_def)
    define m where "m = nat \<lceil>t\<rceil>"
    have m2: "2 \<le> m" using t1 by (simp add: m_def) linarith
    have mt: "t \<le> of_nat m" "of_nat m - 1 < t"
      using t1 by (simp_all add: m_def) linarith+
    define g where "g = floorlog 2 (m - 1)"
    have "0 < m - 1" using m2 by simp
    from floorlog_bounds[OF this, of 2] have gb: "2 ^ (g - 1) \<le> m - 1" "m - 1 < 2 ^ g"
      by (simp_all add: g_def)
    have g1: "1 \<le> g" using gb m2 by (cases g) auto
    have e: "binExponent x = - int g"
      using False by (simp add: binExponent_def m_def g_def t_def)
    have a: "t \<le> 2 ^ g"
    proof -
      have "m \<le> 2 ^ g" using gb(2) by simp
      then have "(of_nat m :: rat) \<le> 2 ^ g" by (rule of_nat_le_pow2)
      then show ?thesis using mt(1) by linarith
    qed
    have b: "2 ^ (g - 1) < t"
    proof -
      have "(2 :: rat) ^ (g - 1) \<le> of_nat (m - 1)" using gb(1) by (rule pow2_le_of_nat)
      then have "(2 :: rat) ^ (g - 1) \<le> of_nat m - 1" using m2 by (simp add: of_nat_diff)
      then show ?thesis using mt(2) by linarith
    qed
    have xt: "x = 1 / t" using assms by (simp add: t_def)
    have tpos: "0 < t" using t1 by simp
    have p1: "(2::rat) powi (- int g) = 1 / 2 ^ g"
      by (simp add: power_int_minus field_simps)
    have p2: "(2::rat) powi (- int g + 1) = 1 / 2 ^ (g - 1)"
    proof -
      obtain k where k: "g = Suc k" using g1 by (cases g) auto
      have "- int g + 1 = - int k" using k by simp
      then have "(2::rat) powi (- int g + 1) = 2 powi (- int k)" by (rule arg_cong)
      also have "\<dots> = 1 / 2 ^ k" by (simp add: power_int_minus field_simps)
      finally show ?thesis using k by simp
    qed
    have "1 / 2 ^ g \<le> 1 / t" using a tpos by (simp add: frac_le)
    moreover have "1 / t < 1 / 2 ^ (g - 1)" using b by (simp add: frac_less2)
    ultimately show ?thesis using e p1 p2 xt by simp
  qed
  then show "2 powi (binExponent x) \<le> x" and "x < 2 powi (binExponent x + 1)" by simp_all
qed

lemma roundTiesToEven_error: "\<bar>of_int (roundTiesToEven q) - q\<bar> \<le> 1 / 2"
proof -
  have "of_int \<lfloor>q\<rfloor> \<le> q" "q < of_int \<lfloor>q\<rfloor> + 1" by linarith+
  then show ?thesis unfolding roundTiesToEven_def Let_def by (simp split: if_splits)
qed

lemma fl_error: "\<bar>fl x - x\<bar> \<le> \<bar>x\<bar> / 2 ^ 53"
proof (cases "x = 0")
  case True then show ?thesis by (simp add: fl_def)
next
  case False
  define e where "e = binExponent \<bar>x\<bar>"
  define u :: rat where "u = 2 powi (e - 52)"
  have upos: "0 < u" by (simp add: u_def)
  have flx: "fl x = of_int (roundTiesToEven (x / u)) * u"
    using False by (simp add: fl_def Let_def e_def u_def)
  have "fl x - x = (of_int (roundTiesToEven (x / u)) - x / u) * u"
    using upos by (simp add: flx field_simps)
  then have "\<bar>fl x - x\<bar> = \<bar>of_int (roundTiesToEven (x / u)) - x / u\<bar> * u"
    using upos by (simp add: abs_mult)
  also have "\<dots> \<le> 1 / 2 * u"
    using roundTiesToEven_error[of "x / u"] upos by (simp add: mult_right_mono)
  also have "\<dots> = 2 powi e / 2 ^ 53"
  proof -
    have "(2::rat) powi (e - 52) = 2 powi e / 2 ^ 52"
      by (simp add: power_int_diff)
    then show ?thesis by (simp add: u_def)
  qed
  also have "\<dots> \<le> \<bar>x\<bar> / 2 ^ 53"
    using binExponent_bounds(1)[of "\<bar>x\<bar>"] False by (simp add: e_def divide_right_mono)
  finally show ?thesis .
qed

lemma fl_error_bound:
  assumes "\<bar>x\<bar> \<le> b"
  shows "\<bar>fl x - x\<bar> \<le> b / 2 ^ 53"
proof -
  have "\<bar>x\<bar> / 2 ^ 53 \<le> b / 2 ^ 53" using assms by (simp add: divide_right_mono)
  with fl_error [of x] show ?thesis by linarith
qed

lemma fl_near:
  assumes "- b \<le> x" and "x \<le> b"
  shows "x - b / 2 ^ 53 \<le> fl x" and "fl x \<le> x + b / 2 ^ 53"
proof -
  have "\<bar>x\<bar> \<le> b" using assms by linarith
  from fl_error_bound [OF this] show "x - b / 2 ^ 53 \<le> fl x" and "fl x \<le> x + b / 2 ^ 53"
    by linarith+
qed

text \<open>Evaluating \<open>fl\<close> at a numeral or a quotient of numerals.\<close>

lemma floor_rat_numeral: "\<lfloor>(numeral a :: rat) / numeral b\<rfloor> = numeral a div numeral b"
  using floor_divide_of_int_eq [where ?'a = rat, of "numeral a" "numeral b"] by simp

lemma floor_rat_one_div: "\<lfloor>(1 :: rat) / numeral b\<rfloor> = 1 div numeral b"
  using floor_divide_of_int_eq [where ?'a = rat, of 1 "numeral b"] by simp

lemma ceiling_rat_numeral: "\<lceil>(numeral a :: rat) / numeral b\<rceil> = - ((- numeral a) div numeral b)"
  using ceiling_divide_eq_div [of "numeral a" "numeral b"] by simp

lemma ceiling_rat_one_div: "\<lceil>(1 :: rat) / numeral b\<rceil> = - ((- 1) div numeral b)"
  using ceiling_divide_eq_div [of 1 "numeral b"] by simp

lemma floorlog_numeral: "floorlog 2 (numeral k) = floorlog 2 (numeral k div 2) + 1"
  by (subst compute_floorlog) simp

lemma floorlog_one: "floorlog 2 (Suc 0) = 1" "floorlog 2 1 = 1"
  by (subst compute_floorlog, simp add: floorlog_def)+

lemma floorlog_zero: "floorlog 2 0 = 0"
  by (simp add: floorlog_def)

lemmas fl_eval =
  fl_def [of "numeral a"] fl_def [of "numeral a / numeral b"] fl_def [of "1 / numeral b"]
  fl_def [of 1] fl_def [of 0]
  binExponent_def [of "numeral a"] binExponent_def [of "numeral a / numeral b"]
  binExponent_def [of "1 / numeral b"] binExponent_def [of 1]
  roundTiesToEven_def [of "numeral a"] roundTiesToEven_def [of "numeral a / numeral b"]
  roundTiesToEven_def [of "1 / numeral b"] roundTiesToEven_def [of 1]
  Let_def power_int_minus
  floor_rat_numeral ceiling_rat_numeral floor_rat_one_div ceiling_rat_one_div
  floorlog_numeral floorlog_one floorlog_zero
  for a b

lemma fl_045: "fl (45 / 100) = 8106479329266893 / 2 ^ 54"
  by (simp add: fl_eval)

lemma fl_035: "fl (35 / 100) = 3152519739159347 / 2 ^ 53"
  by (simp add: fl_eval)

lemma fl_02: "fl (2 / 10) = 3602879701896397 / 2 ^ 54"
  by (simp add: fl_eval)

lemma fl_42: "fl (42 / 10) = 4728779608739021 / 2 ^ 50"
  by (simp add: fl_eval)

lemma fl_065: "fl (65 / 100) = 5854679515581645 / 2 ^ 53"
  by (simp add: fl_eval)

lemma MathRound_of_int: "MathRound (of_int n) = n"
  unfolding MathRound_def by linarith

text \<open>A value close enough to a point away from the half-integers rounds like that point.\<close>

lemma MathRound_stable:
  assumes "of_int m + d \<le> x + 1 / 2" and "x + 1 / 2 \<le> of_int m + 1 - d" and "\<bar>y - x\<bar> < d"
  shows "MathRound y = m"
  unfolding MathRound_def using assms by (intro floor_unique) linarith+

lemma round_div11:
  assumes "0 \<le> c" and "c \<le> 100"
  shows "MathRound (fdiv (of_int c) 11) = \<lfloor>of_int c / (11 :: rat) + 1 / 2\<rfloor>"
proof -
  define m where "m = (2 * c + 11) div 22"
  have "(of_int c / 11 + 1 / 2 :: rat) = of_int (2 * c + 11) / of_int 22" by simp
  then have fm: "\<lfloor>of_int c / (11 :: rat) + 1 / 2\<rfloor> = m"
    unfolding m_def by (simp only: floor_divide_of_int_eq)
  have "(2 * c + 11) mod 22 \<noteq> 0" by presburger
  then have "22 * m + 1 \<le> 2 * c + 11" "2 * c + 11 \<le> 22 * m + 21"
    unfolding m_def by presburger+
  then have "(of_int (22 * m + 1) :: rat) \<le> of_int (2 * c + 11)"
    "(of_int (2 * c + 11) :: rat) \<le> of_int (22 * m + 21)"
    by (simp_all only: of_int_le_iff)
  then have b: "of_int m + 1 / 22 \<le> of_int c / (11 :: rat) + 1 / 2"
    "of_int c / (11 :: rat) + 1 / 2 \<le> of_int m + 1 - 1 / 22"
    by simp_all
  have "\<bar>of_int c / (11 :: rat)\<bar> \<le> 16" using assms by simp
  from fl_error_bound [OF this]
  have "\<bar>fl (of_int c / 11) - of_int c / 11\<bar> < 1 / 22" by simp
  from MathRound_stable [OF b this] show ?thesis unfolding fdiv_def fm .
qed

lemma round_times42:
  assumes "1 \<le> e" and "e \<le> 24"
  shows "MathRound (fmul (of_int e) (fl (42 / 10))) = \<lfloor>of_int e * (42 / 10 :: rat) + 1 / 2\<rfloor>"
proof -
  define m where "m = (42 * e + 5) div 10"
  have "(of_int e * (42 / 10) + 1 / 2 :: rat) = of_int (42 * e + 5) / of_int 10" by simp
  then have fm: "\<lfloor>of_int e * (42 / 10 :: rat) + 1 / 2\<rfloor> = m"
    unfolding m_def by (simp only: floor_divide_of_int_eq)
  have "10 * m + 1 \<le> 42 * e + 5" "42 * e + 5 \<le> 10 * m + 9"
    unfolding m_def by presburger+
  then have "(of_int (10 * m + 1) :: rat) \<le> of_int (42 * e + 5)"
    "(of_int (42 * e + 5) :: rat) \<le> of_int (10 * m + 9)"
    by (simp_all only: of_int_le_iff)
  then have b: "of_int m + 1 / 10 \<le> of_int e * (42 / 10 :: rat) + 1 / 2"
    "of_int e * (42 / 10 :: rat) + 1 / 2 \<le> of_int m + 1 - 1 / 10"
    by simp_all
  define x :: rat where "x = of_int e * (4728779608739021 / 2 ^ 50)"
  have e: "(1 :: rat) \<le> of_int e" "(of_int e :: rat) \<le> 24" using assms by simp_all
  have "\<bar>x\<bar> \<le> 128" using e unfolding x_def by simp
  from fl_error_bound [OF this] have "\<bar>fl x - x\<bar> \<le> 1 / 2 ^ 46" by simp
  moreover have "\<bar>x - of_int e * (42 / 10)\<bar> \<le> 1 / 2 ^ 46" using e unfolding x_def by simp
  moreover have "(1 :: rat) / 2 ^ 46 < 1 / 20" by simp
  ultimately have "\<bar>fl x - of_int e * (42 / 10)\<bar> < 1 / 10" by linarith
  from MathRound_stable [OF b this] have "MathRound (fl x) = m" .
  then show ?thesis unfolding fmul_def fl_42 fm x_def .
qed

section \<open>The train station profile\<close>

lemma toFixed1_near:
  "\<exists>k. toFixed1 x = of_int k / 10 \<and> of_int k / 10 - 1 / 20 \<le> x \<and> x \<le> of_int k / 10 + 1 / 20"
proof (cases "x < 0")
  case True
  define f where "f = \<lfloor>- x * 10 + 1 / 2\<rfloor>"
  have "of_int f \<le> - x * 10 + 1 / 2" "- x * 10 + 1 / 2 < of_int f + 1"
    unfolding f_def by linarith+
  then have "- of_int f / 10 - 1 / 20 \<le> x \<and> x \<le> - of_int f / 10 + 1 / 20" by linarith
  moreover have "toFixed1 x = of_int (- f) / 10" using True by (simp add: toFixed1_def f_def)
  ultimately show ?thesis by (intro exI [of _ "- f"]) simp
next
  case False
  define f where "f = \<lfloor>x * 10 + 1 / 2\<rfloor>"
  have "of_int f \<le> x * 10 + 1 / 2" "x * 10 + 1 / 2 < of_int f + 1"
    unfolding f_def by linarith+
  then have "of_int f / 10 - 1 / 20 \<le> x \<and> x \<le> of_int f / 10 + 1 / 20" by linarith
  moreover have "toFixed1 x = of_int f / 10" using False by (simp add: toFixed1_def f_def)
  ultimately show ?thesis by (intro exI [of _ f]) simp
qed

lemma composite_one_decimal:
  assumes "0 \<le> c" "c \<le> 100" "0 \<le> l" "l \<le> 100" "0 \<le> h" "h \<le> 100"
  shows "\<exists>k. compositeOf c l h = fl (of_int k / 10)
           \<and> \<bar>of_int k / 10 - (of_int c * 45 / 100 + of_int l * 35 / 100 + of_int h * 20 / 100 :: rat)\<bar>
               \<le> 1 / 20"
proof -
  define C :: rat where "C = of_int c"
  define L :: rat where "L = of_int l"
  define H :: rat where "H = of_int h"
  have r: "0 \<le> C" "C \<le> 100" "0 \<le> L" "L \<le> 100" "0 \<le> H" "H \<le> 100"
    using assms by (simp_all add: C_def L_def H_def)
  define a0 where "a0 = C * (8106479329266893 / 2 ^ 54)"
  define b0 where "b0 = L * (3152519739159347 / 2 ^ 53)"
  define h0 where "h0 = H * (3602879701896397 / 2 ^ 54)"
  define E where "E = C * 45 / 100 + L * 35 / 100 + H * 20 / 100"
  define d :: rat where "d = 128 / 2 ^ 53"
  have d: "0 \<le> d" "d \<le> 1 / 100000" by (simp_all add: d_def)
  have a0: "0 \<le> a0" "a0 \<le> 46" "C * 45 / 100 - d \<le> a0" "a0 \<le> C * 45 / 100 + d"
    using r(1,2) unfolding a0_def d_def by simp_all
  have b0: "0 \<le> b0" "b0 \<le> 36" "L * 35 / 100 - d \<le> b0" "b0 \<le> L * 35 / 100 + d"
    using r(3,4) unfolding b0_def d_def by simp_all
  have h0: "0 \<le> h0" "h0 \<le> 21" "H * 20 / 100 - d \<le> h0" "h0 \<le> H * 20 / 100 + d"
    using r(5,6) unfolding h0_def d_def by simp_all
  have ea: "a0 - d \<le> fl a0" "fl a0 \<le> a0 + d"
    unfolding d_def using a0(1,2) by (intro fl_near; linarith)+
  have eb: "b0 - d \<le> fl b0" "fl b0 \<le> b0 + d"
    unfolding d_def using b0(1,2) by (intro fl_near; linarith)+
  have eh: "h0 - d \<le> fl h0" "fl h0 \<le> h0 + d"
    unfolding d_def using h0(1,2) by (intro fl_near; linarith)+
  define s1 where "s1 = fl (fl a0 + fl b0)"
  have e1: "fl a0 + fl b0 - d \<le> s1" "s1 \<le> fl a0 + fl b0 + d"
    unfolding d_def s1_def using a0(1,2) b0(1,2) ea eb d by (intro fl_near; linarith)+
  define S where "S = fl (s1 + fl h0)"
  have e2: "s1 + fl h0 - d \<le> S" "S \<le> s1 + fl h0 + d"
    unfolding d_def S_def using a0(1,2) b0(1,2) h0(1,2) ea eb eh e1 d by (intro fl_near; linarith)+
  have SE: "E - 1 / 1000 \<le> S" "S \<le> E + 1 / 1000"
    unfolding E_def using a0(3,4) b0(3,4) h0(3,4) ea eb eh e1 e2 d by linarith+
  have comp: "compositeOf c l h = fl (toFixed1 S)"
    unfolding compositeOf_def NumberToFixed1_def fadd_def fmul_def fl_045 fl_035 fl_02
      S_def s1_def a0_def b0_def h0_def C_def L_def H_def ..
  obtain k where k: "toFixed1 S = of_int k / 10"
    "of_int k / 10 - 1 / 20 \<le> S" "S \<le> of_int k / 10 + 1 / 20"
    using toFixed1_near [of S] by blast
  define z where "z = 2 * k - (9 * c + 7 * l + 4 * h)"
  have zE: "(of_int z :: rat) = 2 * of_int k - 20 * E"
    unfolding z_def E_def C_def L_def H_def by simp
  have "(of_int z :: rat) < 2" "- 2 < (of_int z :: rat)" using k(2,3) SE zE by linarith+
  then have "z < 2" "- 2 < z" by simp_all
  then have "z \<le> 1" "- 1 \<le> z" by simp_all
  then have "(of_int z :: rat) \<le> 1" "- 1 \<le> (of_int z :: rat)" by simp_all
  then have "\<bar>of_int k / 10 - E\<bar> \<le> 1 / 20" using zE by linarith
  then have "\<bar>of_int k / 10 - (of_int c * 45 / 100 + of_int l * 35 / 100 + of_int h * 20 / 100 :: rat)\<bar>
      \<le> 1 / 20"
    unfolding E_def C_def L_def H_def .
  moreover have "compositeOf c l h = fl (of_int k / 10)" unfolding comp k(1) ..
  ultimately show ?thesis by blast
qed


lemma clamp_range: "lo \<le> hi \<Longrightarrow> lo \<le> clamp v lo hi \<and> clamp v lo hi \<le> hi"
  by (simp add: clamp_def)

lemma capacity_formula:
  "capacityOfSignals cm cl ms ds hs nh
     = clamp (20 + 38 * of_bool cm + 20 * of_bool ms + 12 * of_bool ds + 12 * of_bool nh
                + 10 * of_bool hs - 65 * of_bool cl) 0 100"
  by (cases cm; cases cl; cases ms; cases ds; cases hs; cases nh;
      simp add: capacityOfSignals_def MathRound_of_int Let_def)

lemma capacity_range:
  "0 \<le> capacityOfSignals cm cl ms ds hs nh" "capacityOfSignals cm cl ms ds hs nh \<le> 100"
  unfolding capacity_formula using clamp_range [of 0 100] by simp_all

lemma lineEstimate_formula:
  assumes "0 \<le> c" and "c \<le> 100"
  shows "lineEstimateOf c cm cl ms hs
           = clamp (\<lfloor>of_int c / (11 :: rat) + 1 / 2\<rfloor> + 4 * of_bool cm + 3 * of_bool hs
                      + 2 * of_bool ms - 2 * of_bool cl) 1 24"
  unfolding lineEstimateOf_def Let_def round_div11 [OF assms]
  by (cases cm; cases cl; cases ms; cases hs; simp)

lemma lineEstimate_range:
  "1 \<le> lineEstimateOf c cm cl ms hs" "lineEstimateOf c cm cl ms hs \<le> 24"
  unfolding lineEstimateOf_def Let_def using clamp_range [of 1 24] by simp_all

lemma lineScore_formula:
  assumes "1 \<le> e" and "e \<le> 24"
  shows "lineScoreOf e = clamp \<lfloor>of_int e * (42 / 10 :: rat) + 1 / 2\<rfloor> 0 100"
  unfolding lineScoreOf_def round_times42 [OF assms] ..

lemma lineScore_range: "0 \<le> lineScoreOf e" "lineScoreOf e \<le> 100"
  unfolding lineScoreOf_def using clamp_range [of 0 100] by simp_all

lemma tags_formula:
  "tagsOfSignals cm cl ms hs nh
     = map snd (filter fst [(cm, tagCityMatch), (ms, tagCityMainStyle), (hs, tagHighSpeed),
                            (nh, tagNationalHub), (cl, tagCountyLevel)])"
  by (cases cm; cases cl; cases ms; cases hs; cases nh; simp add: tagsOfSignals_def)

text \<open>Evaluating the name patterns and the profile at a given name.\<close>

lemmas name_eval =
  normalizeStationName_def normalizeCityToken_def trim_def isSpace_def cityMatches_def
  isCountyLevelName_def countyWords_def testAny_def hasDirectionalStationSuffix_def directions_def
  endsWith_def zhan_def isCityMainStyleName_def isHan_def hasHighSpeedSignal_def highSpeedWords_def
  isNationalHubStyleName_def hubCities_def adminSuffixes_def

lemmas profile_eval =
  buildTrainStationProfile_def profileOfSignals_def capacityOfSignals_def lineEstimateOf_def
  lineScoreOf_def compositeOf_def tagsOfSignals_def clamp_def MathRound_def fdiv_def fmul_def
  fadd_def NumberToFixed1_def toFixed1_def

lemma profileOfSignals_values:
  assumes "capacityOfSignals cm cl ms ds hs nh = c"
    and "lineEstimateOf c cm cl ms hs = e"
    and "lineScoreOf e = l"
    and "compositeOf c l (if hs then 100 else 30) = x"
  shows "profileOfSignals cm cl ms ds hs nh
           = \<lparr> capacityScore = c, lineCountScore = l, lineCountEstimate = e,
               highSpeedScore = (if hs then 100 else 30), profileHasHighSpeedSignal = hs,
               compositeScore = x, reasonTags = tagsOfSignals cm cl ms hs nh \<rparr>"
  using assms by (simp add: profileOfSignals_def Let_def)

lemmas number_eval =
  clamp_def MathRound_def fdiv_def fmul_def fadd_def NumberToFixed1_def toFixed1_def

text \<open>The station of Beijing, U+5317 U+4EAC U+7AD9, without a city and in Beijing.\<close>

lemma signals_beijing_station:
  "normalizeStationName [0x5317, 0x4EAC, 0x7AD9] = [0x5317, 0x4EAC, 0x7AD9]"
  "isCountyLevelName [0x5317, 0x4EAC, 0x7AD9] = False"
  "isCityMainStyleName [0x5317, 0x4EAC, 0x7AD9] = True"
  "hasDirectionalStationSuffix [0x5317, 0x4EAC, 0x7AD9] = False"
  "hasHighSpeedSignal [0x5317, 0x4EAC, 0x7AD9] = False"
  "isNationalHubStyleName [0x5317, 0x4EAC, 0x7AD9] = True"
  by (simp_all add: name_eval)

lemma city_beijing:
  "normalizeCityToken None = []"
  "normalizeCityToken (Some [0x5317, 0x4EAC]) = [0x5317, 0x4EAC]"
  by (simp_all add: name_eval)

lemma profile_beijing_station_no_city:
  "buildTrainStationProfile [0x5317, 0x4EAC, 0x7AD9] None
     = \<lparr> capacityScore = 52, lineCountScore = 29, lineCountEstimate = 7, highSpeedScore = 30,
         profileHasHighSpeedSignal = False, compositeScore = 79 / 2,
         reasonTags = [tagCityMainStyle, tagNationalHub] \<rparr>"
proof -
  have s: "buildTrainStationProfile [0x5317, 0x4EAC, 0x7AD9] None
             = profileOfSignals False False True False False True"
    by (simp add: buildTrainStationProfile_def signals_beijing_station city_beijing cityMatches_def)
  have 1: "capacityOfSignals False False True False False True = 52"
    by (simp add: capacityOfSignals_def MathRound_of_int clamp_def)
  have 2: "lineEstimateOf 52 False False True False = 7"
    by (simp add: lineEstimateOf_def number_eval fl_eval)
  have 3: "lineScoreOf 7 = 29"
    by (simp add: lineScoreOf_def number_eval fl_eval)
  have 4: "compositeOf 52 29 (if False then 100 else 30) = 79 / 2"
    by (simp add: compositeOf_def number_eval fl_eval)
  show ?thesis
    unfolding s profileOfSignals_values [OF 1 2 3 4] by (simp add: tagsOfSignals_def)
qed

lemma profile_beijing_station_in_beijing:
  "buildTrainStationProfile [0x5317, 0x4EAC, 0x7AD9] (Some [0x5317, 0x4EAC])
     = \<lparr> capacityScore = 90, lineCountScore = 59, lineCountEstimate = 14, highSpeedScore = 30,
         profileHasHighSpeedSignal = False, compositeScore = 4728779608739021 / 2 ^ 46,
         reasonTags = [tagCityMatch, tagCityMainStyle, tagNationalHub] \<rparr>"
proof -
  have s: "buildTrainStationProfile [0x5317, 0x4EAC, 0x7AD9] (Some [0x5317, 0x4EAC])
             = profileOfSignals True False True False False True"
    by (simp add: buildTrainStationProfile_def signals_beijing_station city_beijing cityMatches_def)
  have 1: "capacityOfSignals True False True False False True = 90"
    by (simp add: capacityOfSignals_def MathRound_of_int clamp_def)
  have 2: "lineEstimateOf 90 True False True False = 14"
    by (simp add: lineEstimateOf_def number_eval fl_eval)
  have 3: "lineScoreOf 14 = 59"
    by (simp add: lineScoreOf_def number_eval fl_eval)
  have 4: "compositeOf 90 59 (if False then 100 else 30) = 4728779608739021 / 2 ^ 46"
    by (simp add: compositeOf_def number_eval fl_eval)
  show ?thesis
    unfolding s profileOfSignals_values [OF 1 2 3 4] by (simp add: tagsOfSignals_def)
qed

text \<open>
  C1 (as amended). For every station name and optional city name, the profile has
  capacityScore = clamp(20 + 38 [city match] + 20 [city-main style] + 12 [directional
  suffix] + 12 [national-hub style] + 10 [high-speed signal] - 65 [county level], 0, 100);
  lineCountEstimate = clamp(round(capacityScore / 11) + 4 [city match] + 3 [high speed]
  + 2 [city-main style] - 2 [county level], 1, 24);
  lineCountScore = clamp(round(lineCountEstimate * 4.2), 0, 100);
  highSpeedScore = 100 with the high-speed signal and 30 without;
  compositeScore = Number((capacityScore * 0.45 + lineCountScore * 0.35
  + highSpeedScore * 0.2).toFixed(1)), the products and the sums taken in binary64, which
  is a number \<open>k / 10\<close> within 0.05 of the exact sum;
  and reasonTags holds, in this order and each only when its signal holds, the tags for
  city match, city-main style, high speed, national hub and county level.
  The roundings of the line count estimate and the line count score are the exact ones.
\<close>

theorem buildTrainStationProfile_formula:
  "let n = normalizeStationName stationName;
       cm = cityMatches (normalizeCityToken cityName) n;
       cl = isCountyLevelName n;
       ms = isCityMainStyleName n;
       ds = hasDirectionalStationSuffix n;
       hs = hasHighSpeedSignal n;
       nh = isNationalHubStyleName n;
       p = buildTrainStationProfile stationName cityName
   in capacityScore p
        = clamp (20 + 38 * of_bool cm + 20 * of_bool ms + 12 * of_bool ds + 12 * of_bool nh
                   + 10 * of_bool hs - 65 * of_bool cl) 0 100
    \<and> lineCountEstimate p
        = clamp (\<lfloor>of_int (capacityScore p) / (11 :: rat) + 1 / 2\<rfloor> + 4 * of_bool cm
                   + 3 * of_bool hs + 2 * of_bool ms - 2 * of_bool cl) 1 24
    \<and> lineCountScore p = clamp \<lfloor>of_int (lineCountEstimate p) * (42 / 10 :: rat) + 1 / 2\<rfloor> 0 100
    \<and> highSpeedScore p = (if hs then 100 else 30)
    \<and> profileHasHighSpeedSignal p = hs
    \<and> compositeScore p
        = NumberToFixed1
            (fadd (fadd (fmul (of_int (capacityScore p)) (fl (45 / 100)))
                        (fmul (of_int (lineCountScore p)) (fl (35 / 100))))
                  (fmul (of_int (highSpeedScore p)) (fl (2 / 10))))
    \<and> (\<exists>k. compositeScore p = fl (of_int k / 10)
           \<and> \<bar>of_int k / 10
               - (of_int (capacityScore p) * 45 / 100 + of_int (lineCountScore p) * 35 / 100
                  + of_int (highSpeedScore p) * 20 / 100 :: rat)\<bar> \<le> 1 / 20)
    \<and> reasonTags p
        = map snd (filter fst [(cm, tagCityMatch), (ms, tagCityMainStyle), (hs, tagHighSpeed),
                               (nh, tagNationalHub), (cl, tagCountyLevel)])"
proof -
  define n where "n = normalizeStationName stationName"
  define cm where "cm = cityMatches (normalizeCityToken cityName) n"
  define cl where "cl = isCountyLevelName n"
  define ms where "ms = isCityMainStyleName n"
  define ds where "ds = hasDirectionalStationSuffix n"
  define hs where "hs = hasHighSpeedSignal n"
  define nh where "nh = isNationalHubStyleName n"
  define c where "c = capacityOfSignals cm cl ms ds hs nh"
  define e where "e = lineEstimateOf c cm cl ms hs"
  define l where "l = lineScoreOf e"
  define h :: int where "h = (if hs then 100 else 30)"
  define p where "p = buildTrainStationProfile stationName cityName"
  have p: "capacityScore p = c" "lineCountEstimate p = e" "lineCountScore p = l"
    "highSpeedScore p = h" "profileHasHighSpeedSignal p = hs"
    "compositeScore p = compositeOf c l h" "reasonTags p = tagsOfSignals cm cl ms hs nh"
    unfolding p_def buildTrainStationProfile_def profileOfSignals_def Let_def
      c_def e_def l_def h_def cm_def cl_def ms_def ds_def hs_def nh_def n_def
    by simp_all
  have c: "0 \<le> c" "c \<le> 100" unfolding c_def by (rule capacity_range)+
  have e: "1 \<le> e" "e \<le> 24" unfolding e_def by (rule lineEstimate_range)+
  have l: "0 \<le> l" "l \<le> 100" unfolding l_def by (rule lineScore_range)+
  have h: "0 \<le> h" "h \<le> 100" unfolding h_def by simp_all
  have 1: "c = clamp (20 + 38 * of_bool cm + 20 * of_bool ms + 12 * of_bool ds + 12 * of_bool nh
                   + 10 * of_bool hs - 65 * of_bool cl) 0 100"
    unfolding c_def by (rule capacity_formula)
  have 2: "e = clamp (\<lfloor>of_int c / (11 :: rat) + 1 / 2\<rfloor> + 4 * of_bool cm
                   + 3 * of_bool hs + 2 * of_bool ms - 2 * of_bool cl) 1 24"
    unfolding e_def by (rule lineEstimate_formula [OF c])
  have 3: "l = clamp \<lfloor>of_int e * (42 / 10 :: rat) + 1 / 2\<rfloor> 0 100"
    unfolding l_def by (rule lineScore_formula [OF e])
  have 4: "\<exists>k. compositeOf c l h = fl (of_int k / 10)
           \<and> \<bar>of_int k / 10 - (of_int c * 45 / 100 + of_int l * 35 / 100 + of_int h * 20 / 100 :: rat)\<bar>
               \<le> 1 / 20"
    by (rule composite_one_decimal [OF c l h])
  have 6: "compositeOf c l h
        = NumberToFixed1
            (fadd (fadd (fmul (of_int c) (fl (45 / 100))) (fmul (of_int l) (fl (35 / 100))))
                  (fmul (of_int h) (fl (2 / 10))))"
    by (rule compositeOf_def)
  have 5: "tagsOfSignals cm cl ms hs nh
        = map snd (filter fst [(cm, tagCityMatch), (ms, tagCityMainStyle), (hs, tagHighSpeed),
                               (nh, tagNationalHub), (cl, tagCountyLevel)])"
    by (rule tags_formula)
  have "capacityScore p
        = clamp (20 + 38 * of_bool cm + 20 * of_bool ms + 12 * of_bool ds + 12 * of_bool nh
                   + 10 * of_bool hs - 65 * of_bool cl) 0 100
    \<and> lineCountEstimate p
        = clamp (\<lfloor>of_int (capacityScore p) / (11 :: rat) + 1 / 2\<rfloor> + 4 * of_bool cm
                   + 3 * of_bool hs + 2 * of_bool ms - 2 * of_bool cl) 1 24
    \<and> lineCountScore p = clamp \<lfloor>of_int (lineCountEstimate p) * (42 / 10 :: rat) + 1 / 2\<rfloor> 0 100
    \<and> highSpeedScore p = (if hs then 100 else 30)
    \<and> profileHasHighSpeedSignal p = hs
    \<and> compositeScore p
        = NumberToFixed1
            (fadd (fadd (fmul (of_int (capacityScore p)) (fl (45 / 100)))
                        (fmul (of_int (lineCountScore p)) (fl (35 / 100))))
                  (fmul (of_int (highSpeedScore p)) (fl (2 / 10))))
    \<and> (\<exists>k. compositeScore p = fl (of_int k / 10)
           \<and> \<bar>of_int k / 10
               - (of_int (capacityScore p) * 45 / 100 + of_int (lineCountScore p) * 35 / 100
                  + of_int (highSpeedScore p) * 20 / 100 :: rat)\<bar> \<le> 1 / 20)
    \<and> reasonTags p
        = map snd (filter fst [(cm, tagCityMatch), (ms, tagCityMainStyle), (hs, tagHighSpeed),
                               (nh, tagNationalHub), (cl, tagCountyLevel)])"
    unfolding p using 1 2 3 4 5 6 h_def by blast
  then show ?thesis
    unfolding Let_def p_def cm_def cl_def ms_def ds_def hs_def nh_def n_def .
qed


text \<open>
  C1, counterexample. The claim as stated takes the exact sum and rounds it to one
  decimal. For the station of Beijing (U+5317 U+4EAC U+7AD9) without a city the three
  scores are 52, 29 and 30 and the exact sum is 39.55, which rounds to 39.6; the function
  returns 39.5, because the binary64 sum lies just below 39.55. With the city Beijing the
  scores are 90, 59 and 30, the exact sum is 67.15, and the function returns 67.2: it does
  not round a tie down either.
\<close>

theorem compositeScore_counterexample:
  "capacityScore (buildTrainStationProfile [0x5317, 0x4EAC, 0x7AD9] None) = 52
   \<and> lineCountScore (buildTrainStationProfile [0x5317, 0x4EAC, 0x7AD9] None) = 29
   \<and> highSpeedScore (buildTrainStationProfile [0x5317, 0x4EAC, 0x7AD9] None) = 30
   \<and> (52 * 45 / 100 + 29 * 35 / 100 + 30 * 20 / 100 :: rat) = 3955 / 100
   \<and> specRoundOneDecimal (3955 / 100) = 396 / 10
   \<and> compositeScore (buildTrainStationProfile [0x5317, 0x4EAC, 0x7AD9] None) = fl (395 / 10)
   \<and> compositeScore (buildTrainStationProfile [0x5317, 0x4EAC, 0x7AD9] None)
       \<noteq> fl (specRoundOneDecimal (52 * 45 / 100 + 29 * 35 / 100 + 30 * 20 / 100))
   \<and> capacityScore (buildTrainStationProfile [0x5317, 0x4EAC, 0x7AD9] (Some [0x5317, 0x4EAC])) = 90
   \<and> lineCountScore (buildTrainStationProfile [0x5317, 0x4EAC, 0x7AD9] (Some [0x5317, 0x4EAC])) = 59
   \<and> highSpeedScore (buildTrainStationProfile [0x5317, 0x4EAC, 0x7AD9] (Some [0x5317, 0x4EAC])) = 30
   \<and> (90 * 45 / 100 + 59 * 35 / 100 + 30 * 20 / 100 :: rat) = 6715 / 100
   \<and> compositeScore (buildTrainStationProfile [0x5317, 0x4EAC, 0x7AD9] (Some [0x5317, 0x4EAC]))
       = fl (672 / 10)
   \<and> compositeScore (buildTrainStationProfile [0x5317, 0x4EAC, 0x7AD9] (Some [0x5317, 0x4EAC]))
       \<noteq> fl (671 / 10)"
  unfolding profile_beijing_station_no_city profile_beijing_station_in_beijing
  by (simp add: specRoundOneDecimal_def fl_eval)

section \<open>Properties of the sort\<close>

lemma set_insertBy: "set (insertBy cmp x xs) = insert x (set xs)"
  by (induction xs) auto

lemma length_insertBy: "length (insertBy cmp x xs) = Suc (length xs)"
  by (induction xs) auto

lemma set_sortBy: "set (sortBy cmp xs) = set xs"
  unfolding sortBy_def by (induction xs) (auto simp: set_insertBy)

lemma length_sortBy: "length (sortBy cmp xs) = length xs"
  unfolding sortBy_def by (induction xs) (auto simp: length_insertBy)

lemma sortBy_Nil_iff: "sortBy cmp xs = [] \<longleftrightarrow> xs = []"
  using length_sortBy [of cmp xs] by (metis length_0_conv)

lemma sorted_insertBy:
  assumes "consistent cmp" and "sorted_wrt (\<lambda>a b. cmp a b \<le> 0) xs"
  shows "sorted_wrt (\<lambda>a b. cmp a b \<le> 0) (insertBy cmp x xs)"
  using assms(2)
proof (induction xs)
  case Nil
  then show ?case by simp
next
  case (Cons y ys)
  show ?case
  proof (cases "cmp x y \<le> 0")
    case True
    have "\<forall>z \<in> set ys. cmp x z \<le> 0"
      using Cons.prems True assms(1) unfolding consistent_def by (metis sorted_wrt.simps(2))
    then show ?thesis using True Cons.prems by simp
  next
    case False
    then have "cmp y x \<le> 0" using assms(1) unfolding consistent_def by blast
    then show ?thesis using False Cons by (auto simp: set_insertBy)
  qed
qed

lemma sorted_sortBy:
  assumes "consistent cmp"
  shows "sorted_wrt (\<lambda>a b. cmp a b \<le> 0) (sortBy cmp xs)"
  unfolding sortBy_def by (induction xs) (auto intro: sorted_insertBy [OF assms])

lemma sortBy_head_least:
  assumes "consistent cmp" and "sortBy cmp xs = y # ys" and "z \<in> set xs"
  shows "cmp y z \<le> 0"
proof -
  have "sorted_wrt (\<lambda>a b. cmp a b \<le> 0) (y # ys)"
    using sorted_sortBy [OF assms(1), of xs] assms(2) by simp
  moreover have "z \<in> set (y # ys)" using assms(2,3) set_sortBy [of cmp xs] by simp
  moreover have "cmp y y \<le> 0" using assms(1) unfolding consistent_def by blast
  ultimately show ?thesis by auto
qed

lemma sorted_wrt_take: "sorted_wrt P xs \<Longrightarrow> sorted_wrt P (take n xs)"
  by (metis append_take_drop_id sorted_wrt_append)

lemma consistent_trainCompare: "consistent trainCompare"
  unfolding consistent_def trainCompare_def Let_def by (auto split: if_splits)

lemma consistent_airportCompare: "consistent airportCompare"
  unfolding consistent_def airportCompare_def by (auto split: if_splits)

lemma consistent_distanceCompare: "consistent distanceCompare"
  unfolding consistent_def distanceCompare_def by auto

section \<open>The train hub\<close>

lemma trainFiltered_profile:
  "item \<in> set (trainFiltered candidates cityName highSpeedOnly)
     \<Longrightarrow> fst item \<in> set (trainWorking candidates cityName)
         \<and> snd item = buildTrainStationProfile (name (fst item)) cityName"
  unfolding trainFiltered_def Let_def by (auto split: if_splits)

lemma trainWorking_subset: "set (trainWorking candidates cityName) \<subseteq> set candidates"
  unfolding trainWorking_def Let_def by (auto split: if_splits)

lemma trainFiltered_highSpeedOnly_Nil:
  "trainFiltered candidates cityName True = []
     \<longleftrightarrow> (\<forall>item \<in> set (trainWorking candidates cityName).
            \<not> (profileHasHighSpeedSignal (buildTrainStationProfile (name item) cityName)
                 \<and> truthy (highSpeedQueryHit item)))"
  unfolding trainFiltered_def Let_def by (auto simp: filter_empty_conv)

lemma trainWorking_Nil: "trainWorking [] cityName = []"
  unfolding trainWorking_def Let_def by simp

text \<open>
  C6. With \<open>highSpeedOnly\<close>, \<open>pickBestTrainHub\<close> returns null exactly when no candidate
  left by the county filter and the city step has both the high-speed signal in its
  profile and \<open>highSpeedQueryHit\<close> true; candidates without the signal do not count.
\<close>

theorem pickBestTrainHub_highSpeedOnly_null:
  "pickBestTrainHub candidates cityName True = None
     \<longleftrightarrow> (\<forall>item \<in> set (trainWorking candidates cityName).
            \<not> (profileHasHighSpeedSignal (buildTrainStationProfile (name item) cityName)
                 \<and> truthy (highSpeedQueryHit item)))"
proof (cases "candidates = []")
  case True
  then show ?thesis by (simp add: pickBestTrainHub_def trainWorking_Nil)
next
  case False
  show ?thesis
  proof (cases "trainFiltered candidates cityName True = []")
    case True
    then show ?thesis
      using trainFiltered_highSpeedOnly_Nil [of candidates cityName]
      by (simp add: pickBestTrainHub_def)
  next
    case nonempty: False
    then have "sortBy trainCompare (trainFiltered candidates cityName True) \<noteq> []"
      by (simp add: sortBy_Nil_iff)
    then have "pickBestTrainHub candidates cityName True \<noteq> None"
      using False nonempty by (simp add: pickBestTrainHub_def Let_def split: list.splits)
    then show ?thesis
      using trainFiltered_highSpeedOnly_Nil [of candidates cityName] nonempty by blast
  qed
qed


text \<open>
  The south station of Beijing, U+5317 U+4EAC U+5357 U+7AD9, and the east station of
  Zhuozhou, U+6DBF U+5DDE U+4E1C U+7AD9, both for the city Beijing.
\<close>

lemma signals_beijing_south:
  "normalizeStationName [0x5317, 0x4EAC, 0x5357, 0x7AD9] = [0x5317, 0x4EAC, 0x5357, 0x7AD9]"
  "isCountyLevelName [0x5317, 0x4EAC, 0x5357, 0x7AD9] = False"
  "isCityMainStyleName [0x5317, 0x4EAC, 0x5357, 0x7AD9] = True"
  "hasDirectionalStationSuffix [0x5317, 0x4EAC, 0x5357, 0x7AD9] = True"
  "hasHighSpeedSignal [0x5317, 0x4EAC, 0x5357, 0x7AD9] = True"
  "isNationalHubStyleName [0x5317, 0x4EAC, 0x5357, 0x7AD9] = True"
  by (simp_all add: name_eval)

lemma signals_zhuozhou_east:
  "normalizeStationName [0x6DBF, 0x5DDE, 0x4E1C, 0x7AD9] = [0x6DBF, 0x5DDE, 0x4E1C, 0x7AD9]"
  "isCountyLevelName [0x6DBF, 0x5DDE, 0x4E1C, 0x7AD9] = False"
  "isCityMainStyleName [0x6DBF, 0x5DDE, 0x4E1C, 0x7AD9] = True"
  "hasDirectionalStationSuffix [0x6DBF, 0x5DDE, 0x4E1C, 0x7AD9] = True"
  "hasHighSpeedSignal [0x6DBF, 0x5DDE, 0x4E1C, 0x7AD9] = True"
  "isNationalHubStyleName [0x6DBF, 0x5DDE, 0x4E1C, 0x7AD9] = False"
  by (simp_all add: name_eval)

lemma profile_beijing_south_in_beijing:
  "buildTrainStationProfile [0x5317, 0x4EAC, 0x5357, 0x7AD9] (Some [0x5317, 0x4EAC])
     = \<lparr> capacityScore = 100, lineCountScore = 76, lineCountEstimate = 18, highSpeedScore = 100,
         profileHasHighSpeedSignal = True, compositeScore = 3222888483337011 / 2 ^ 45,
         reasonTags = [tagCityMatch, tagCityMainStyle, tagHighSpeed, tagNationalHub] \<rparr>"
proof -
  have s: "buildTrainStationProfile [0x5317, 0x4EAC, 0x5357, 0x7AD9] (Some [0x5317, 0x4EAC]) = profileOfSignals True False True True True True"
    by (simp add: buildTrainStationProfile_def signals_beijing_south city_beijing cityMatches_def)
  have 1: "capacityOfSignals True False True True True True = 100"
    by (simp add: capacityOfSignals_def MathRound_of_int clamp_def)
  have 2: "lineEstimateOf 100 True False True True = 18"
    by (simp add: lineEstimateOf_def number_eval fl_eval)
  have 3: "lineScoreOf 18 = 76"
    by (simp add: lineScoreOf_def number_eval fl_eval)
  have 4: "compositeOf 100 76 (if True then 100 else 30) = 3222888483337011 / 2 ^ 45"
    by (simp add: compositeOf_def number_eval fl_eval)
  show ?thesis
    unfolding s profileOfSignals_values [OF 1 2 3 4] by (simp add: tagsOfSignals_def)
qed

lemma profile_zhuozhou_east_in_beijing:
  "buildTrainStationProfile [0x6DBF, 0x5DDE, 0x4E1C, 0x7AD9] (Some [0x5317, 0x4EAC])
     = \<lparr> capacityScore = 62, lineCountScore = 46, lineCountEstimate = 11, highSpeedScore = 100,
         profileHasHighSpeedSignal = True, compositeScore = 64,
         reasonTags = [tagCityMainStyle, tagHighSpeed] \<rparr>"
proof -
  have s: "buildTrainStationProfile [0x6DBF, 0x5DDE, 0x4E1C, 0x7AD9] (Some [0x5317, 0x4EAC]) = profileOfSignals False False True True True False"
    by (simp add: buildTrainStationProfile_def signals_zhuozhou_east city_beijing cityMatches_def)
  have 1: "capacityOfSignals False False True True True False = 62"
    by (simp add: capacityOfSignals_def MathRound_of_int clamp_def)
  have 2: "lineEstimateOf 62 False False True True = 11"
    by (simp add: lineEstimateOf_def number_eval fl_eval)
  have 3: "lineScoreOf 11 = 46"
    by (simp add: lineScoreOf_def number_eval fl_eval)
  have 4: "compositeOf 62 46 (if True then 100 else 30) = 64"
    by (simp add: compositeOf_def number_eval fl_eval)
  show ?thesis
    unfolding s profileOfSignals_values [OF 1 2 3 4] by (simp add: tagsOfSignals_def)
qed

lemma scenario_filtered:
  fixes c1 c2 c3 :: HubResult
  assumes n: "name c1 = [0x5317, 0x4EAC, 0x7AD9]" "name c2 = [0x5317, 0x4EAC, 0x5357, 0x7AD9]" "name c3 = [0x6DBF, 0x5DDE, 0x4E1C, 0x7AD9]"
    and h: "highSpeedQueryHit c2 = Some True" "highSpeedQueryHit c3 = Some True"
  shows "trainFiltered [c1, c2, c3] (Some [0x5317, 0x4EAC]) True
           = [(c2, buildTrainStationProfile [0x5317, 0x4EAC, 0x5357, 0x7AD9] (Some [0x5317, 0x4EAC])),
              (c3, buildTrainStationProfile [0x6DBF, 0x5DDE, 0x4E1C, 0x7AD9] (Some [0x5317, 0x4EAC]))]"
proof -
  have w: "trainWorking [c1, c2, c3] (Some [0x5317, 0x4EAC]) = [c1, c2, c3]"
    by (simp add: trainWorking_def Let_def n city_beijing signals_beijing_station
          signals_beijing_south signals_zhuozhou_east)
  show ?thesis
    unfolding trainFiltered_def Let_def w
    by (simp add: n h truthy_def profile_beijing_station_in_beijing
          profile_beijing_south_in_beijing profile_zhuozhou_east_in_beijing)
qed

lemma scenario_ranked:
  "sortBy trainCompare
     [(c2, buildTrainStationProfile [0x5317, 0x4EAC, 0x5357, 0x7AD9] (Some [0x5317, 0x4EAC])), (c3, buildTrainStationProfile [0x6DBF, 0x5DDE, 0x4E1C, 0x7AD9] (Some [0x5317, 0x4EAC]))]
     = [(c2, buildTrainStationProfile [0x5317, 0x4EAC, 0x5357, 0x7AD9] (Some [0x5317, 0x4EAC])),
        (c3, buildTrainStationProfile [0x6DBF, 0x5DDE, 0x4E1C, 0x7AD9] (Some [0x5317, 0x4EAC]))]"
  unfolding sortBy_def
  by (simp add: trainCompare_def profile_beijing_south_in_beijing profile_zhuozhou_east_in_beijing)

text \<open>
  C2. For the candidates Beijing station (3000 m, any \<open>highSpeedQueryHit\<close>), Beijing
  south station (12000 m, \<open>highSpeedQueryHit\<close> true) and Zhuozhou east station (45000 m,
  \<open>highSpeedQueryHit\<close> true), in this order and whatever their other fields, with the
  city Beijing and \<open>highSpeedOnly\<close>, \<open>pickBestTrainHub\<close> returns a result, and its name
  is Beijing south station.
\<close>

theorem pickBestTrainHub_beijing_scenario:
  "map_option name
     (pickBestTrainHub
        [\<lparr> kind = k1, kindLabel = l1, name = [0x5317, 0x4EAC, 0x7AD9], address = a1,
          distanceMeters = Some 3000, latitude = y1, longitude = x1, highSpeedQueryHit = h1,
          trainProfile = p1, topCandidates = t1 \<rparr>,
         \<lparr> kind = k2, kindLabel = l2, name = [0x5317, 0x4EAC, 0x5357, 0x7AD9], address = a2,
          distanceMeters = Some 12000, latitude = y2, longitude = x2, highSpeedQueryHit = Some True,
          trainProfile = p2, topCandidates = t2 \<rparr>,
         \<lparr> kind = k3, kindLabel = l3, name = [0x6DBF, 0x5DDE, 0x4E1C, 0x7AD9], address = a3,
          distanceMeters = Some 45000, latitude = y3, longitude = x3, highSpeedQueryHit = Some True,
          trainProfile = p3, topCandidates = t3 \<rparr>]
        (Some [0x5317, 0x4EAC]) True)
     = Some [0x5317, 0x4EAC, 0x5357, 0x7AD9]"
proof -
  define c1 where "c1 = \<lparr> kind = k1, kindLabel = l1, name = [0x5317, 0x4EAC, 0x7AD9], address = a1,
          distanceMeters = Some 3000, latitude = y1, longitude = x1, highSpeedQueryHit = h1,
          trainProfile = p1, topCandidates = t1 \<rparr>"
  define c2 where "c2 = \<lparr> kind = k2, kindLabel = l2, name = [0x5317, 0x4EAC, 0x5357, 0x7AD9], address = a2,
          distanceMeters = Some 12000, latitude = y2, longitude = x2, highSpeedQueryHit = Some True,
          trainProfile = p2, topCandidates = t2 \<rparr>"
  define c3 where "c3 = \<lparr> kind = k3, kindLabel = l3, name = [0x6DBF, 0x5DDE, 0x4E1C, 0x7AD9], address = a3,
          distanceMeters = Some 45000, latitude = y3, longitude = x3, highSpeedQueryHit = Some True,
          trainProfile = p3, topCandidates = t3 \<rparr>"
  have n: "name c1 = [0x5317, 0x4EAC, 0x7AD9]" "name c2 = [0x5317, 0x4EAC, 0x5357, 0x7AD9]" "name c3 = [0x6DBF, 0x5DDE, 0x4E1C, 0x7AD9]"
    by (simp_all add: c1_def c2_def c3_def)
  have h: "highSpeedQueryHit c2 = Some True" "highSpeedQueryHit c3 = Some True"
    by (simp_all add: c2_def c3_def)
  have "map_option name (pickBestTrainHub [c1, c2, c3] (Some [0x5317, 0x4EAC]) True) = Some [0x5317, 0x4EAC, 0x5357, 0x7AD9]"
    unfolding pickBestTrainHub_def Let_def scenario_filtered [OF n h] scenario_ranked
    by (simp add: n)
  then show ?thesis unfolding c1_def c2_def c3_def .
qed


text \<open>
  C6, witness: Beijing station returned by the high-speed query, city Beijing. The name
  has no high-speed signal, so nothing is left and the result is null.
\<close>

theorem pickBestTrainHub_highSpeedOnly_null_witness:
  "pickBestTrainHub
     [\<lparr> kind = train, kindLabel = [], name = [0x5317, 0x4EAC, 0x7AD9], address = [],
          distanceMeters = Some 3000, latitude = Finite 0, longitude = Finite 0,
          highSpeedQueryHit = Some True, trainProfile = None, topCandidates = None \<rparr>]
     (Some [0x5317, 0x4EAC]) True = None"
proof -
  define c1 where "c1 = \<lparr> kind = train, kindLabel = [], name = [0x5317, 0x4EAC, 0x7AD9], address = [],
          distanceMeters = Some 3000, latitude = Finite 0, longitude = Finite 0,
          highSpeedQueryHit = Some True, trainProfile = None, topCandidates = None \<rparr>"
  have n: "name c1 = [0x5317, 0x4EAC, 0x7AD9]" by (simp add: c1_def)
  have w: "trainWorking [c1] (Some [0x5317, 0x4EAC]) = [c1]"
    by (simp add: trainWorking_def Let_def n city_beijing signals_beijing_station)
  have "pickBestTrainHub [c1] (Some [0x5317, 0x4EAC]) True = None"
    using pickBestTrainHub_highSpeedOnly_null [of "[c1]" "Some [0x5317, 0x4EAC]"]
    by (simp add: w n profile_beijing_station_in_beijing)
  then show ?thesis unfolding c1_def .
qed

lemma trainCandidate_order:
  assumes "snd a = buildTrainStationProfile (name (fst a)) cityName"
    and "snd b = buildTrainStationProfile (name (fst b)) cityName"
    and "trainCompare a b \<le> 0"
  shows "specTrainOrder cityName (trainCandidate a) (trainCandidate b)"
  using assms(3) unfolding specTrainOrder_def trainCandidate_def trainCompare_def Let_def
  by (simp add: assms(1,2) [symmetric] split: if_splits)

lemma sorted_wrt_map_mono:
  assumes "sorted_wrt P xs" and "\<And>a b. a \<in> set xs \<Longrightarrow> b \<in> set xs \<Longrightarrow> P a b \<Longrightarrow> Q (f a) (f b)"
  shows "sorted_wrt Q (map f xs)"
  using assms by (induction xs) (auto simp: sorted_wrt_map)

lemma pickBestTrainHub_Some:
  assumes "pickBestTrainHub candidates cityName highSpeedOnly = Some r"
  shows "\<exists>top first rest c.
           topCandidates r = Some top \<and> top = first # rest \<and> length top \<le> 3
           \<and> sorted_wrt (specTrainOrder cityName) top
           \<and> cand_name first = name r \<and> cand_address first = address r
           \<and> cand_distanceMeters first = distanceMeters r
           \<and> map_option compositeScore (trainProfile r) = Some (cand_score first)
           \<and> c \<in> set candidates
           \<and> r = c \<lparr> trainProfile := Some (buildTrainStationProfile (name c) cityName),
                      topCandidates := Some top \<rparr>"
proof -
  define ranked where "ranked = sortBy trainCompare (trainFiltered candidates cityName highSpeedOnly)"
  define top where "top = map trainCandidate (take 3 ranked)"
  from assms obtain primary others where
    ranked: "ranked = primary # others"
    and r: "r = (fst primary) \<lparr> trainProfile := Some (snd primary), topCandidates := Some top \<rparr>"
    unfolding pickBestTrainHub_def Let_def ranked_def top_def
    by (auto split: if_splits list.splits)
  have mem: "\<And>item. item \<in> set ranked \<Longrightarrow>
      fst item \<in> set candidates \<and> snd item = buildTrainStationProfile (name (fst item)) cityName"
    unfolding ranked_def set_sortBy
    using trainFiltered_profile [of _ candidates cityName highSpeedOnly]
      trainWorking_subset [of candidates cityName] by blast
  have p: "fst primary \<in> set candidates"
    "snd primary = buildTrainStationProfile (name (fst primary)) cityName"
    using mem [of primary] ranked by simp_all
  have "sorted_wrt (\<lambda>a b. trainCompare a b \<le> 0) ranked"
    unfolding ranked_def by (rule sorted_sortBy [OF consistent_trainCompare])
  then have "sorted_wrt (\<lambda>a b. trainCompare a b \<le> 0) (take 3 ranked)" by (rule sorted_wrt_take)
  then have sorted: "sorted_wrt (specTrainOrder cityName) top"
    unfolding top_def
  proof (rule sorted_wrt_map_mono)
    fix a b
    assume "a \<in> set (take 3 ranked)" "b \<in> set (take 3 ranked)" "trainCompare a b \<le> 0"
    then show "specTrainOrder cityName (trainCandidate a) (trainCandidate b)"
      using mem [of a] mem [of b] trainCandidate_order [of a cityName b]
      by (meson in_set_takeD)
  qed
  have t: "top = trainCandidate primary # map trainCandidate (take 2 others)"
    unfolding top_def ranked by (simp add: numeral_3_eq_3 take_Suc_Cons numeral_2_eq_2)
  have len: "length top \<le> 3" unfolding top_def by simp
  show ?thesis
    using t len sorted p r by (intro exI [of _ top] exI [of _ "trainCandidate primary"]
      exI [of _ "map trainCandidate (take 2 others)"] exI [of _ "fst primary"])
      (simp add: trainCandidate_def)
qed

section \<open>The airport score\<close>

subsection \<open>The distance penalty\<close>

lemma tie_distances:
  fixes n m :: int
  assumes "0 \<le> n" "n < 140000" "13 * n + 10000 = 20000 * m"
  shows "n \<in> {10000, 30000, 50000, 70000, 90000, 110000, 130000}"
proof -
  define j where "j = 3077 * (2 * m - 1) - 4 * n"
  have "10000 * j = 3077 * (20000 * m) - 30770000 - 40000 * n"
    unfolding j_def by (simp add: algebra_simps)
  then have j: "n = 10000 * j" using assms(3) by linarith
  have "0 \<le> j" "j < 14" using assms(1,2) j by simp_all
  moreover have "13 * j + 1 = 2 * m" using assms(3) j by simp
  then have "odd j" by presburger
  ultimately have "j = 1 \<or> j = 3 \<or> j = 5 \<or> j = 7 \<or> j = 9 \<or> j = 11 \<or> j = 13"
    by presburger
  then show ?thesis using j by auto
qed

lemma penalty_at_ties:
  "MathRound (fmul (fdiv 10000 1000) (fl (65 / 100))) = 7"
  "MathRound (fmul (fdiv 30000 1000) (fl (65 / 100))) = 20"
  "MathRound (fmul (fdiv 50000 1000) (fl (65 / 100))) = 33"
  "MathRound (fmul (fdiv 70000 1000) (fl (65 / 100))) = 46"
  "MathRound (fmul (fdiv 90000 1000) (fl (65 / 100))) = 59"
  "MathRound (fmul (fdiv 110000 1000) (fl (65 / 100))) = 72"
  "MathRound (fmul (fdiv 130000 1000) (fl (65 / 100))) = 85"
  by (simp_all add: number_eval fl_eval)


lemma fl_065_numeral: "fl (65 / 100) = 5854679515581645 / 9007199254740992"
  unfolding fl_065 by simp

lemma fl_near_256:
  assumes "- 256 \<le> x" and "x \<le> 256"
  shows "x - 1 / 1000000 \<le> fl x" and "fl x \<le> x + 1 / 1000000"
proof -
  have "(256 :: rat) / 2 ^ 53 \<le> 1 / 1000000" by simp
  with fl_near [OF assms] show "x - 1 / 1000000 \<le> fl x" and "fl x \<le> x + 1 / 1000000"
    by linarith+
qed

lemma fl_lower:
  assumes "0 \<le> x"
  shows "x * 999 / 1000 \<le> fl x"
proof -
  have "x / 2 ^ 53 \<le> x / 1000" using assms by (intro divide_left_mono) simp_all
  moreover have "\<bar>fl x - x\<bar> \<le> x / 2 ^ 53" using fl_error [of x] assms by simp
  ultimately show ?thesis by linarith
qed

lemma penalty_small:
  assumes "0 \<le> n" and "n < 140000"
  shows "MathRound (fmul (fdiv (of_int n) 1000) (fl (65 / 100)))
           = \<lfloor>of_int n * 65 / (100000 :: rat) + 1 / 2\<rfloor>"
proof -
  define m where "m = (13 * n + 10000) div 20000"
  have "(of_int n * 65 / 100000 + 1 / 2 :: rat) = of_int (13 * n + 10000) / of_int 20000" by simp
  then have fm: "\<lfloor>of_int n * 65 / (100000 :: rat) + 1 / 2\<rfloor> = m"
    unfolding m_def by (simp only: floor_divide_of_int_eq)
  define r where "r = (13 * n + 10000) mod 20000"
  have eq: "13 * n + 10000 = 20000 * m + r" unfolding m_def r_def by simp
  have r: "0 \<le> r" "r < 20000" unfolding r_def by simp_all
  show ?thesis
  proof (cases "r = 0")
    case True
    then have "13 * n + 10000 = 20000 * m" using eq by simp
    from tie_distances [OF assms this]
    have "n = 10000 \<or> n = 30000 \<or> n = 50000 \<or> n = 70000 \<or> n = 90000 \<or> n = 110000
            \<or> n = 130000"
      by simp
    then show ?thesis
      by (elim disjE; hypsubst; simp only: of_int_numeral penalty_at_ties)
        (simp_all add: floor_rat_numeral)
  next
    case False
    then have "20000 * m + 1 \<le> 13 * n + 10000" "13 * n + 10000 \<le> 20000 * m + 19999"
      using eq r by linarith+
    then have "(of_int (20000 * m + 1) :: rat) \<le> of_int (13 * n + 10000)"
      "(of_int (13 * n + 10000) :: rat) \<le> of_int (20000 * m + 19999)"
      by (simp_all only: of_int_le_iff)
    then have b: "of_int m + 1 / 20000 \<le> of_int n * 65 / (100000 :: rat) + 1 / 2"
      "of_int n * 65 / (100000 :: rat) + 1 / 2 \<le> of_int m + 1 - 1 / 20000"
      by simp_all
    define N :: rat where "N = of_int n"
    have N: "0 \<le> N" "N < 140000" using assms by (simp_all add: N_def)
    define a where "a = fl (N / 1000)"
    have a: "N / 1000 - 1 / 1000000 \<le> a" "a \<le> N / 1000 + 1 / 1000000"
      unfolding a_def using N by (intro fl_near_256; linarith)+
    define y0 where "y0 = a * (5854679515581645 / 9007199254740992)"
    have y0: "N * 65 / 100000 - 1 / 100000 \<le> y0" "y0 \<le> N * 65 / 100000 + 1 / 100000"
      unfolding y0_def using a N by linarith+
    have y: "y0 - 1 / 1000000 \<le> fl y0" "fl y0 \<le> y0 + 1 / 1000000"
      using y0 N by (intro fl_near_256; linarith)+
    have "\<bar>fl y0 - N * 65 / 100000\<bar> < 1 / 20000" using y y0 by linarith
    from MathRound_stable [OF b this [unfolded N_def]]
    have "MathRound (fl y0) = m" .
    then show ?thesis unfolding fmul_def fdiv_def fl_065_numeral fm y0_def a_def N_def .
  qed
qed

lemma penalty_large:
  assumes "140000 \<le> n"
  shows "85 \<le> MathRound (fmul (fdiv (of_int n) 1000) (fl (65 / 100)))"
    and "85 \<le> \<lfloor>of_int n * 65 / (100000 :: rat) + 1 / 2\<rfloor>"
proof -
  define N :: rat where "N = of_int n"
  have N: "140000 \<le> N" using assms by (simp add: N_def)
  define a where "a = fl (N / 1000)"
  have "N / 1000 * 999 / 1000 \<le> a" unfolding a_def using N by (intro fl_lower) simp
  then have a: "139 \<le> a" using N by linarith
  define y0 where "y0 = a * (5854679515581645 / 9007199254740992)"
  have y0: "90 \<le> y0" unfolding y0_def using a by linarith
  have "y0 * 999 / 1000 \<le> fl y0" using y0 by (intro fl_lower) simp
  then have "89 \<le> fl y0" using y0 by linarith
  then have "of_int 85 \<le> fl y0 + 1 / 2" by simp
  then have "85 \<le> MathRound (fl y0)" unfolding MathRound_def by (simp only: le_floor_iff)
  then show "85 \<le> MathRound (fmul (fdiv (of_int n) 1000) (fl (65 / 100)))"
    unfolding fmul_def fdiv_def fl_065_numeral y0_def a_def N_def .
  have "of_int 85 \<le> N * 65 / 100000 + 1 / 2" using N by simp
  then show "85 \<le> \<lfloor>of_int n * 65 / (100000 :: rat) + 1 / 2\<rfloor>"
    unfolding N_def by (simp only: le_floor_iff)
qed

text \<open>
  For whole metres the penalty computed in binary64 is the exact one: \<open>min(85, round(d /
  1000 * 0.65))\<close> with a tie going up.
\<close>

lemma distancePenalty_exact:
  assumes "\<forall>n. dm = Some n \<longrightarrow> 0 \<le> n"
  shows "distancePenalty dm
           = min 85 \<lfloor>of_int (case dm of None \<Rightarrow> 120000 | Some n \<Rightarrow> n) * 65 / (100000 :: rat) + 1 / 2\<rfloor>"
proof -
  define n where "n = (case dm of None \<Rightarrow> 120000 | Some n \<Rightarrow> n)"
  have n: "0 \<le> n" using assms unfolding n_def by (cases dm) simp_all
  have "min 85 (MathRound (fmul (fdiv (of_int n) 1000) (fl (65 / 100))))
          = min 85 \<lfloor>of_int n * 65 / (100000 :: rat) + 1 / 2\<rfloor>"
  proof (cases "n < 140000")
    case True
    then show ?thesis using penalty_small [OF n] by simp
  next
    case False
    then show ?thesis using penalty_large [of n] by simp
  qed
  then show ?thesis unfolding distancePenalty_def n_def .
qed

lemma distancePenalty_range:
  assumes "\<forall>n. dm = Some n \<longrightarrow> 0 \<le> n"
  shows "0 \<le> distancePenalty dm" and "distancePenalty dm \<le> 85"
proof -
  define n where "n = (case dm of None \<Rightarrow> 120000 | Some n \<Rightarrow> n)"
  have n: "0 \<le> n" using assms unfolding n_def by (cases dm) simp_all
  then have "(0 :: rat) \<le> of_int n * 65 / 100000 + 1 / 2" by simp
  then have "0 \<le> \<lfloor>of_int n * 65 / (100000 :: rat) + 1 / 2\<rfloor>" by simp
  then show "0 \<le> distancePenalty dm" and "distancePenalty dm \<le> 85"
    unfolding distancePenalty_exact [OF assms] n_def by simp_all
qed


subsection \<open>The airport score\<close>

lemmas airport_eval =
  guojiJichang_def jichang_def smallAirportWords_def tagInternational_def tagSameCity_def
  tagOtherCity_def tagSmallAirport_def tagDistancePrefix_def decimalInt_def decimal.simps

text \<open>
  C3 (as amended). For every airport name, optional city name and distance that is null
  or a whole number of metres not below 0, the score is 30 + 45 [name contains the
  international-airport word] + 18 [name contains the airport word] + 18 [city match]
  - 18 [a city token is known and does not match] - 70 [small-airport word] - penalty,
  where penalty = min(85, round(d / 1000 * 0.65)) for the distance d, 120000 when null;
  and the tags are, in this order: the international tag when international; the
  same-city tag when the city matches, the other-city tag when a city token is known and
  does not match, and neither of the two when no city token is known; the small-airport
  tag when that signal holds; and last, always, the distance tag with the penalty.
\<close>

theorem buildAirportScore_formula:
  assumes "\<forall>d. dm = Some d \<longrightarrow> 0 \<le> d"
  shows
    "let n = normalizeStationName airportName;
         tok = normalizeCityToken cityName;
         cm = cityMatches tok n;
         intl = strIncludes n guojiJichang;
         com = strIncludes n jichang;
         small = testAny smallAirportWords n;
         penalty = min 85 \<lfloor>of_int (case dm of None \<Rightarrow> 120000 | Some d \<Rightarrow> d) * 65 / (100000 :: rat) + 1 / 2\<rfloor>;
         r = buildAirportScore airportName cityName dm
     in score r
          = 30 + 45 * of_bool intl + 18 * of_bool com + 18 * of_bool cm
              - 18 * of_bool (\<not> cm \<and> tok \<noteq> []) - 70 * of_bool small - penalty
      \<and> scoreTags r
          = map snd (filter fst [(intl, tagInternational), (cm, tagSameCity),
                                 (\<not> cm \<and> tok \<noteq> [], tagOtherCity), (small, tagSmallAirport)])
              @ [tagDistancePrefix @ decimalInt penalty]"
  unfolding Let_def buildAirportScore_def distancePenalty_exact [OF assms, symmetric]
  by simp

text \<open>
  C3, witness: the international airport of Pudong (U+6D66 U+4E1C U+56FD U+9645 U+673A
  U+573A), city Beijing, 30000 metres: 30 + 45 + 18 - 18 - 20 = 55, with the
  international tag, the other-city tag and the distance tag.
\<close>

theorem buildAirportScore_formula_witness:
  "score (buildAirportScore [0x6D66, 0x4E1C, 0x56FD, 0x9645, 0x673A, 0x573A] (Some [0x5317, 0x4EAC]) (Some 30000)) = 55
   \<and> scoreTags (buildAirportScore [0x6D66, 0x4E1C, 0x56FD, 0x9645, 0x673A, 0x573A] (Some [0x5317, 0x4EAC]) (Some 30000))
       = [tagInternational, tagOtherCity, tagDistancePrefix @ [0x32, 0x30]]"
proof -
  have a: "\<forall>d. Some (30000 :: int) = Some d \<longrightarrow> 0 \<le> d" by simp
  have n: "normalizeStationName [0x6D66, 0x4E1C, 0x56FD, 0x9645, 0x673A, 0x573A] = [0x6D66, 0x4E1C, 0x56FD, 0x9645, 0x673A, 0x573A]"
    "normalizeCityToken (Some [0x5317, 0x4EAC]) = [0x5317, 0x4EAC]"
    by (simp_all add: name_eval)
  show ?thesis
    using buildAirportScore_formula [OF a, of "[0x6D66, 0x4E1C, 0x56FD, 0x9645, 0x673A, 0x573A]" "Some [0x5317, 0x4EAC]"]
    unfolding Let_def n
    by (simp add: cityMatches_def testAny_def airport_eval floor_rat_numeral)
qed

text \<open>
  C3, counterexample. The claim has exactly one of the same-city and other-city tags in
  every result. Without a city there is neither: for the international airport of
  Pudong at 1000 metres the tags are the international tag and the distance tag.
\<close>

theorem buildAirportScore_city_tag_counterexample:
  "scoreTags (buildAirportScore [0x6D66, 0x4E1C, 0x56FD, 0x9645, 0x673A, 0x573A] None (Some 1000))
     = [tagInternational, tagDistancePrefix @ [0x31]]
   \<and> tagSameCity \<notin> set (scoreTags (buildAirportScore [0x6D66, 0x4E1C, 0x56FD, 0x9645, 0x673A, 0x573A] None (Some 1000)))
   \<and> tagOtherCity \<notin> set (scoreTags (buildAirportScore [0x6D66, 0x4E1C, 0x56FD, 0x9645, 0x673A, 0x573A] None (Some 1000)))"
proof -
  have a: "\<forall>d. Some (1000 :: int) = Some d \<longrightarrow> 0 \<le> d" by simp
  have n: "normalizeStationName [0x6D66, 0x4E1C, 0x56FD, 0x9645, 0x673A, 0x573A] = [0x6D66, 0x4E1C, 0x56FD, 0x9645, 0x673A, 0x573A]" "normalizeCityToken None = []"
    by (simp_all add: name_eval)
  have "scoreTags (buildAirportScore [0x6D66, 0x4E1C, 0x56FD, 0x9645, 0x673A, 0x573A] None (Some 1000))
          = [tagInternational, tagDistancePrefix @ [0x31]]"
    unfolding buildAirportScore_def Let_def distancePenalty_exact [OF a] n
    by (simp add: cityMatches_def testAny_def airport_eval floor_rat_numeral)
  then show ?thesis by (simp add: airport_eval)
qed

text \<open>
  C10. For every airport name, optional city name and distance that is null or a whole
  number of metres not below 0, the score lies between -143 and 111. Both ends are
  reached, so the score is not kept within 0 and 100: a general-aviation name (U+901A
  U+7528) for the city Beijing at 200000 metres scores -143, and the international
  airport of Beijing for the city Beijing at distance 0 scores 111.
\<close>

theorem buildAirportScore_range:
  "((\<forall>d. dm = Some d \<longrightarrow> 0 \<le> d)
      \<longrightarrow> - 143 \<le> score (buildAirportScore airportName cityName dm)
          \<and> score (buildAirportScore airportName cityName dm) \<le> 111)
   \<and> score (buildAirportScore [0x901A, 0x7528] (Some [0x5317, 0x4EAC]) (Some 200000)) = - 143
   \<and> score (buildAirportScore [0x5317, 0x4EAC, 0x56FD, 0x9645, 0x673A, 0x573A] (Some [0x5317, 0x4EAC]) (Some 0)) = 111"
proof -
  have 1: "- 143 \<le> score (buildAirportScore airportName cityName dm)
          \<and> score (buildAirportScore airportName cityName dm) \<le> 111"
    if a: "\<forall>d. dm = Some d \<longrightarrow> 0 \<le> d"
    using distancePenalty_range [OF a]
    unfolding buildAirportScore_def Let_def by simp
  have n: "normalizeStationName [0x901A, 0x7528] = [0x901A, 0x7528]" "normalizeStationName [0x5317, 0x4EAC, 0x56FD, 0x9645, 0x673A, 0x573A] = [0x5317, 0x4EAC, 0x56FD, 0x9645, 0x673A, 0x573A]"
    "normalizeCityToken (Some [0x5317, 0x4EAC]) = [0x5317, 0x4EAC]"
    by (simp_all add: name_eval)
  have a2: "\<forall>d. Some (200000 :: int) = Some d \<longrightarrow> 0 \<le> d" by simp
  have 2: "score (buildAirportScore [0x901A, 0x7528] (Some [0x5317, 0x4EAC]) (Some 200000)) = - 143"
    unfolding buildAirportScore_def Let_def distancePenalty_exact [OF a2] n
    by (simp add: cityMatches_def testAny_def airport_eval floor_rat_numeral)
  have a3: "\<forall>d. Some (0 :: int) = Some d \<longrightarrow> 0 \<le> d" by simp
  have 3: "score (buildAirportScore [0x5317, 0x4EAC, 0x56FD, 0x9645, 0x673A, 0x573A] (Some [0x5317, 0x4EAC]) (Some 0)) = 111"
    unfolding buildAirportScore_def Let_def distancePenalty_exact [OF a3] n
    by (simp add: cityMatches_def testAny_def airport_eval floor_rat_one_div)
  show ?thesis using 1 2 3 by blast
qed

text \<open>C10, witness: the bounds at the general-aviation name, where the lower one is reached.\<close>

theorem buildAirportScore_range_witness:
  "- 143 \<le> score (buildAirportScore [0x901A, 0x7528] (Some [0x5317, 0x4EAC]) (Some 200000))
   \<and> score (buildAirportScore [0x901A, 0x7528] (Some [0x5317, 0x4EAC]) (Some 200000)) \<le> 111"
  using buildAirportScore_range [of "Some 200000" "[0x901A, 0x7528]" "Some [0x5317, 0x4EAC]"]
  by simp

section \<open>The airport hub\<close>

subsection \<open>The groups of airports\<close>

lemma keys_addToGroup:
  "map fst (addToGroup k item g) = (if k \<in> set (map fst g) then map fst g else map fst g @ [k])"
proof (induction g)
  case Nil
  then show ?case by simp
next
  case (Cons p g)
  obtain k' members where p: "p = (k', members)" by (cases p)
  show ?case using Cons unfolding p by (cases "k' = k") auto
qed

lemma map_of_addToGroup:
  "map_of (addToGroup k item g)
     = (map_of g)(k \<mapsto> (case map_of g k of None \<Rightarrow> [item] | Some members \<Rightarrow> members @ [item]))"
  by (induction g) (auto simp: fun_eq_iff)

lemma groupAirports_snoc:
  "groupAirports (cs @ [c]) = addToGroup (canonicalAirportName (name c)) c (groupAirports cs)"
  unfolding groupAirports_def by simp

lemma groupAirports_keys_distinct: "distinct (map fst (groupAirports cs))"
proof (induction cs rule: rev_induct)
  case Nil
  then show ?case by (simp add: groupAirports_def)
next
  case (snoc c cs)
  then show ?case unfolding groupAirports_snoc keys_addToGroup by simp
qed

lemma groupAirports_map_of:
  "map_of (groupAirports cs) k
     = (if k \<in> (\<lambda>c. canonicalAirportName (name c)) ` set cs
        then Some (filter (\<lambda>c. canonicalAirportName (name c) = k) cs) else None)"
proof (induction cs rule: rev_induct)
  case Nil
  then show ?case by (simp add: groupAirports_def)
next
  case (snoc c cs)
  show ?case
  proof (cases "k = canonicalAirportName (name c)")
    case True
    show ?thesis
    proof (cases "k \<in> (\<lambda>c. canonicalAirportName (name c)) ` set cs")
      case present: True
      then show ?thesis unfolding groupAirports_snoc map_of_addToGroup using True snoc by simp
    next
      case absent: False
      then have "filter (\<lambda>c. canonicalAirportName (name c) = k) cs = []"
        by (auto simp: filter_empty_conv)
      then show ?thesis
        unfolding groupAirports_snoc map_of_addToGroup using True snoc absent by simp
    qed
  next
    case False
    then show ?thesis unfolding groupAirports_snoc map_of_addToGroup using snoc by auto
  qed
qed

lemma groupAirports_members:
  assumes "(k, members) \<in> set (groupAirports cs)"
  shows "members = filter (\<lambda>c. canonicalAirportName (name c) = k) cs"
    and "k \<in> (\<lambda>c. canonicalAirportName (name c)) ` set cs"
proof -
  have "map_of (groupAirports cs) k = Some members"
    using assms groupAirports_keys_distinct [of cs] by simp
  then show "members = filter (\<lambda>c. canonicalAirportName (name c) = k) cs"
    and "k \<in> (\<lambda>c. canonicalAirportName (name c)) ` set cs"
    unfolding groupAirports_map_of by (simp_all split: if_splits)
qed

lemma groupAirports_nonempty:
  assumes "(k, members) \<in> set (groupAirports cs)"
  shows "members \<noteq> []"
  using groupAirports_members [OF assms] by (auto simp: filter_empty_conv)

lemma groupAirports_present:
  assumes "c \<in> set cs"
  shows "(canonicalAirportName (name c),
          filter (\<lambda>x. canonicalAirportName (name x) = canonicalAirportName (name c)) cs)
           \<in> set (groupAirports cs)"
proof -
  have "map_of (groupAirports cs) (canonicalAirportName (name c))
          = Some (filter (\<lambda>x. canonicalAirportName (name x) = canonicalAirportName (name c)) cs)"
    unfolding groupAirports_map_of using assms by auto
  then show ?thesis by (rule map_of_SomeD)
qed

text \<open>The nearest member of a group that is not empty.\<close>

lemma nearest_member:
  assumes "members \<noteq> []"
  shows "\<exists>w. take 1 (sortBy distanceCompare members) = [w] \<and> w \<in> set members
           \<and> (\<forall>m \<in> set members. distanceOrMax (distanceMeters w) \<le> distanceOrMax (distanceMeters m))"
proof -
  obtain w rest where s: "sortBy distanceCompare members = w # rest"
    using assms sortBy_Nil_iff [of distanceCompare members] by (cases "sortBy distanceCompare members") auto
  have "w \<in> set members" using set_sortBy [of distanceCompare members] s by auto
  moreover have "\<forall>m \<in> set members. distanceOrMax (distanceMeters w) \<le> distanceOrMax (distanceMeters m)"
    using sortBy_head_least [OF consistent_distanceCompare s]
    unfolding distanceCompare_def by auto
  ultimately show ?thesis using s by simp
qed

lemma concat_singletons_keys:
  assumes "\<And>g. g \<in> set gs \<Longrightarrow> \<exists>w. f g = [w] \<and> h w = fst g"
  shows "map h (concat (map f gs)) = map fst gs"
  using assms
proof (induction gs)
  case Nil
  then show ?case by simp
next
  case (Cons g gs)
  from Cons.prems [of g] obtain w where "f g = [w]" "h w = fst g" by auto
  moreover have "map h (concat (map f gs)) = map fst gs" using Cons by simp
  ultimately show ?case by simp
qed

lemma airportWorking_keys:
  "map (\<lambda>w. canonicalAirportName (name w)) (airportWorking cs) = map fst (groupAirports cs)"
  unfolding airportWorking_def
proof (rule concat_singletons_keys)
  fix g
  assume g: "g \<in> set (groupAirports cs)"
  obtain k members where km: "g = (k, members)" by (cases g)
  from g km have m: "members = filter (\<lambda>c. canonicalAirportName (name c) = k) cs" "members \<noteq> []"
    using groupAirports_members(1) groupAirports_nonempty by blast+
  from nearest_member [OF m(2)] obtain w where
    "take 1 (sortBy distanceCompare members) = [w]" "w \<in> set members" by blast
  then show "\<exists>w. take 1 (sortBy distanceCompare (snd g)) = [w] \<and> canonicalAirportName (name w) = fst g"
    using m(1) km by auto
qed

lemma airportWorking_member:
  assumes "w \<in> set (airportWorking cs)"
  shows "w \<in> set cs"
    and "\<forall>m \<in> set cs. canonicalAirportName (name m) = canonicalAirportName (name w)
           \<longrightarrow> distanceOrMax (distanceMeters w) \<le> distanceOrMax (distanceMeters m)"
proof -
  from assms obtain g where g: "g \<in> set (groupAirports cs)"
    and w: "w \<in> set (take 1 (sortBy distanceCompare (snd g)))"
    unfolding airportWorking_def by auto
  obtain k members where km: "g = (k, members)" by (cases g)
  from g km have m: "members = filter (\<lambda>c. canonicalAirportName (name c) = k) cs" "members \<noteq> []"
    using groupAirports_members(1) groupAirports_nonempty by blast+
  from nearest_member [OF m(2)] obtain v where
    v: "take 1 (sortBy distanceCompare members) = [v]" "v \<in> set members"
    "\<forall>m \<in> set members. distanceOrMax (distanceMeters v) \<le> distanceOrMax (distanceMeters m)"
    by blast
  have wv: "w = v" using w v(1) km by simp
  show "w \<in> set cs" using wv v(2) m(1) by simp
  have "canonicalAirportName (name w) = k" using wv v(2) m(1) by simp
  then show "\<forall>m \<in> set cs. canonicalAirportName (name m) = canonicalAirportName (name w)
           \<longrightarrow> distanceOrMax (distanceMeters w) \<le> distanceOrMax (distanceMeters m)"
    using v(3) wv m(1) by simp
qed

lemma filter_key_single:
  assumes "distinct (map h xs)" and "x \<in> set xs"
  shows "filter (\<lambda>y. h y = h x) xs = [x]"
  using assms
proof (induction xs)
  case Nil
  then show ?case by simp
next
  case (Cons y ys)
  show ?case
  proof (cases "y = x")
    case True
    have "h x \<notin> h ` set ys" using Cons.prems(1) True by simp
    then have "filter (\<lambda>z. h z = h x) ys = []"
      unfolding filter_empty_conv by (metis imageI)
    then show ?thesis using True by simp
  next
    case False
    then have "x \<in> set ys" using Cons.prems(2) by simp
    moreover have "h y \<noteq> h x" using Cons.prems(1) \<open>x \<in> set ys\<close> by auto
    ultimately show ?thesis using Cons by simp
  qed
qed


lemmas canonical_eval =
  canonicalAirportName_def normalizeStationName_def trim_def isSpace_def jichang_def

lemma canonical_pudong:
  "canonicalAirportName [0x6D66, 0x4E1C, 0x56FD, 0x9645, 0x673A, 0x573A, 0x0054, 0x0031, 0x822A, 0x7AD9, 0x697C] = [0x6D66, 0x4E1C, 0x56FD, 0x9645, 0x673A, 0x573A]"
  "canonicalAirportName [0x6D66, 0x4E1C, 0x56FD, 0x9645, 0x673A, 0x573A, 0x0054, 0x0032] = [0x6D66, 0x4E1C, 0x56FD, 0x9645, 0x673A, 0x573A]"
  by (simp_all add: canonical_eval)

text \<open>
  C8. The names of terminal 1 and terminal 2 of Pudong international airport (the
  airport name followed by T1 and the word for terminal, and by T2) have the same
  canonical name, the name cut after the airport word. For every candidate list that
  holds an entry of each name, \<open>pickBestAirportHub\<close> has exactly one group under that
  key, both entries are members of it, and exactly one candidate of that key is kept
  and scored: a member of the group whose distance, null counting as the largest, is
  not above that of any member.
\<close>

theorem pudong_terminals_one_group:
  "canonicalAirportName [0x6D66, 0x4E1C, 0x56FD, 0x9645, 0x673A, 0x573A, 0x0054, 0x0031, 0x822A, 0x7AD9, 0x697C] = [0x6D66, 0x4E1C, 0x56FD, 0x9645, 0x673A, 0x573A]
   \<and> canonicalAirportName [0x6D66, 0x4E1C, 0x56FD, 0x9645, 0x673A, 0x573A, 0x0054, 0x0032] = [0x6D66, 0x4E1C, 0x56FD, 0x9645, 0x673A, 0x573A]
   \<and> (a \<in> set candidates \<and> b \<in> set candidates \<and> name a = [0x6D66, 0x4E1C, 0x56FD, 0x9645, 0x673A, 0x573A, 0x0054, 0x0031, 0x822A, 0x7AD9, 0x697C] \<and> name b = [0x6D66, 0x4E1C, 0x56FD, 0x9645, 0x673A, 0x573A, 0x0054, 0x0032]
        \<longrightarrow> (\<exists>members w.
               filter (\<lambda>g. fst g = [0x6D66, 0x4E1C, 0x56FD, 0x9645, 0x673A, 0x573A]) (groupAirports candidates) = [([0x6D66, 0x4E1C, 0x56FD, 0x9645, 0x673A, 0x573A], members)]
             \<and> a \<in> set members \<and> b \<in> set members
             \<and> filter (\<lambda>c. canonicalAirportName (name c) = [0x6D66, 0x4E1C, 0x56FD, 0x9645, 0x673A, 0x573A]) (airportWorking candidates) = [w]
             \<and> w \<in> set members
             \<and> (\<forall>m \<in> set members.
                   distanceOrMax (distanceMeters w) \<le> distanceOrMax (distanceMeters m))
             \<and> (w, buildAirportScore (name w) cityName (distanceMeters w))
                 \<in> set (airportRanked candidates cityName)
             \<and> (\<forall>row \<in> set (airportRanked candidates cityName).
                   canonicalAirportName (name (fst row)) = [0x6D66, 0x4E1C, 0x56FD, 0x9645, 0x673A, 0x573A]
                     \<longrightarrow> row = (w, buildAirportScore (name w) cityName (distanceMeters w)))))"
proof (intro conjI impI)
  show "canonicalAirportName [0x6D66, 0x4E1C, 0x56FD, 0x9645, 0x673A, 0x573A, 0x0054, 0x0031, 0x822A, 0x7AD9, 0x697C] = [0x6D66, 0x4E1C, 0x56FD, 0x9645, 0x673A, 0x573A]" "canonicalAirportName [0x6D66, 0x4E1C, 0x56FD, 0x9645, 0x673A, 0x573A, 0x0054, 0x0032] = [0x6D66, 0x4E1C, 0x56FD, 0x9645, 0x673A, 0x573A]"
    by (rule canonical_pudong)+
next
  assume h: "a \<in> set candidates \<and> b \<in> set candidates \<and> name a = [0x6D66, 0x4E1C, 0x56FD, 0x9645, 0x673A, 0x573A, 0x0054, 0x0031, 0x822A, 0x7AD9, 0x697C] \<and> name b = [0x6D66, 0x4E1C, 0x56FD, 0x9645, 0x673A, 0x573A, 0x0054, 0x0032]"
  define K :: jsstring where "K = [0x6D66, 0x4E1C, 0x56FD, 0x9645, 0x673A, 0x573A]"
  define members where "members = filter (\<lambda>c. canonicalAirportName (name c) = K) candidates"
  have ka: "canonicalAirportName (name a) = K" and kb: "canonicalAirportName (name b) = K"
    using h canonical_pudong unfolding K_def by simp_all
  have g: "(K, members) \<in> set (groupAirports candidates)"
    using groupAirports_present [of a candidates] h ka unfolding members_def by simp
  have 1: "filter (\<lambda>g. fst g = K) (groupAirports candidates) = [(K, members)]"
    using filter_key_single [OF groupAirports_keys_distinct g] by simp
  have 2: "a \<in> set members" "b \<in> set members" using h ka kb unfolding members_def by simp_all
  have "K \<in> set (map (\<lambda>w. canonicalAirportName (name w)) (airportWorking candidates))"
    unfolding airportWorking_keys using g by force
  then obtain w where w: "w \<in> set (airportWorking candidates)" "canonicalAirportName (name w) = K"
    by auto
  have "distinct (map (\<lambda>w. canonicalAirportName (name w)) (airportWorking candidates))"
    unfolding airportWorking_keys by (rule groupAirports_keys_distinct)
  from filter_key_single [OF this w(1)]
  have 3: "filter (\<lambda>c. canonicalAirportName (name c) = K) (airportWorking candidates) = [w]"
    using w(2) by simp
  have 4: "w \<in> set members" using airportWorking_member(1) [OF w(1)] w(2) unfolding members_def by simp
  have 5: "\<forall>m \<in> set members. distanceOrMax (distanceMeters w) \<le> distanceOrMax (distanceMeters m)"
    using airportWorking_member(2) [OF w(1)] w(2) unfolding members_def by simp
  have 6: "(w, buildAirportScore (name w) cityName (distanceMeters w))
             \<in> set (airportRanked candidates cityName)"
    unfolding airportRanked_def set_sortBy using w(1) by simp
  have 7: "\<forall>row \<in> set (airportRanked candidates cityName).
             canonicalAirportName (name (fst row)) = K
               \<longrightarrow> row = (w, buildAirportScore (name w) cityName (distanceMeters w))"
  proof (intro ballI impI)
    fix row
    assume r: "row \<in> set (airportRanked candidates cityName)"
      and k: "canonicalAirportName (name (fst row)) = K"
    from r obtain v where v: "v \<in> set (airportWorking candidates)"
      "row = (v, buildAirportScore (name v) cityName (distanceMeters v))"
      unfolding airportRanked_def set_sortBy by auto
    have "v \<in> set (filter (\<lambda>c. canonicalAirportName (name c) = K) (airportWorking candidates))"
      using v k by simp
    then have "v = w" unfolding 3 by simp
    then show "row = (w, buildAirportScore (name w) cityName (distanceMeters w))" using v(2) by simp
  qed
  show "\<exists>members w.
               filter (\<lambda>g. fst g = [0x6D66, 0x4E1C, 0x56FD, 0x9645, 0x673A, 0x573A]) (groupAirports candidates) = [([0x6D66, 0x4E1C, 0x56FD, 0x9645, 0x673A, 0x573A], members)]
             \<and> a \<in> set members \<and> b \<in> set members
             \<and> filter (\<lambda>c. canonicalAirportName (name c) = [0x6D66, 0x4E1C, 0x56FD, 0x9645, 0x673A, 0x573A]) (airportWorking candidates) = [w]
             \<and> w \<in> set members
             \<and> (\<forall>m \<in> set members.
                   distanceOrMax (distanceMeters w) \<le> distanceOrMax (distanceMeters m))
             \<and> (w, buildAirportScore (name w) cityName (distanceMeters w))
                 \<in> set (airportRanked candidates cityName)
             \<and> (\<forall>row \<in> set (airportRanked candidates cityName).
                   canonicalAirportName (name (fst row)) = [0x6D66, 0x4E1C, 0x56FD, 0x9645, 0x673A, 0x573A]
                     \<longrightarrow> row = (w, buildAirportScore (name w) cityName (distanceMeters w)))"
    using 1 2 3 4 5 6 7 unfolding K_def by blast
qed

text \<open>
  C8, witness: terminal 1 at 30000 metres and terminal 2 at 25000 metres. The one
  candidate kept for the key is not farther than 25000 metres.
\<close>

theorem pudong_terminals_one_group_witness:
  "\<exists>w. filter (\<lambda>c. canonicalAirportName (name c) = [0x6D66, 0x4E1C, 0x56FD, 0x9645, 0x673A, 0x573A])
          (airportWorking
             [\<lparr> kind = airport, kindLabel = [], name = [0x6D66, 0x4E1C, 0x56FD, 0x9645, 0x673A, 0x573A, 0x0054, 0x0031, 0x822A, 0x7AD9, 0x697C],
        address = [], distanceMeters = Some 30000, latitude = Finite 0, longitude = Finite 0,
        highSpeedQueryHit = None, trainProfile = None, topCandidates = None \<rparr>,
              \<lparr> kind = airport, kindLabel = [], name = [0x6D66, 0x4E1C, 0x56FD, 0x9645, 0x673A, 0x573A, 0x0054, 0x0032],
        address = [], distanceMeters = Some 25000, latitude = Finite 0, longitude = Finite 0,
        highSpeedQueryHit = None, trainProfile = None, topCandidates = None \<rparr>])
          = [w]
       \<and> distanceOrMax (distanceMeters w) \<le> 25000"
proof -
  define a where "a = \<lparr> kind = airport, kindLabel = [], name = [0x6D66, 0x4E1C, 0x56FD, 0x9645, 0x673A, 0x573A, 0x0054, 0x0031, 0x822A, 0x7AD9, 0x697C],
        address = [], distanceMeters = Some 30000, latitude = Finite 0, longitude = Finite 0,
        highSpeedQueryHit = None, trainProfile = None, topCandidates = None \<rparr>"
  define b where "b = \<lparr> kind = airport, kindLabel = [], name = [0x6D66, 0x4E1C, 0x56FD, 0x9645, 0x673A, 0x573A, 0x0054, 0x0032],
        address = [], distanceMeters = Some 25000, latitude = Finite 0, longitude = Finite 0,
        highSpeedQueryHit = None, trainProfile = None, topCandidates = None \<rparr>"
  have h: "a \<in> set [a, b] \<and> b \<in> set [a, b] \<and> name a = [0x6D66, 0x4E1C, 0x56FD, 0x9645, 0x673A, 0x573A, 0x0054, 0x0031, 0x822A, 0x7AD9, 0x697C] \<and> name b = [0x6D66, 0x4E1C, 0x56FD, 0x9645, 0x673A, 0x573A, 0x0054, 0x0032]"
    by (simp add: a_def b_def)
  from pudong_terminals_one_group [of a "[a, b]" b None] h
  obtain members w where
    "filter (\<lambda>c. canonicalAirportName (name c) = [0x6D66, 0x4E1C, 0x56FD, 0x9645, 0x673A, 0x573A]) (airportWorking [a, b]) = [w]"
    "b \<in> set members"
    "\<forall>m \<in> set members. distanceOrMax (distanceMeters w) \<le> distanceOrMax (distanceMeters m)"
    by blast
  moreover have "distanceOrMax (distanceMeters b) = 25000" by (simp add: b_def distanceOrMax_def)
  ultimately have "filter (\<lambda>c. canonicalAirportName (name c) = [0x6D66, 0x4E1C, 0x56FD, 0x9645, 0x673A, 0x573A]) (airportWorking [a, b]) = [w]
       \<and> distanceOrMax (distanceMeters w) \<le> 25000"
    by metis
  then show ?thesis unfolding a_def b_def by blast
qed


subsection \<open>The result of the airport pick\<close>

lemma airportCandidate_order:
  assumes "airportCompare a b \<le> 0"
  shows "specAirportOrder (airportCandidate a) (airportCandidate b)"
  using assms unfolding specAirportOrder_def airportCandidate_def airportCompare_def
  by (simp split: if_splits)

lemma pickBestAirportHub_Some:
  assumes "pickBestAirportHub candidates cityName = Some r"
  shows "\<exists>top first rest c.
           topCandidates r = Some top \<and> top = first # rest \<and> length top \<le> 3
           \<and> sorted_wrt specAirportOrder top
           \<and> cand_name first = name r \<and> cand_address first = address r
           \<and> cand_distanceMeters first = distanceMeters r
           \<and> cand_score first
               = of_int (score (buildAirportScore (name r) cityName (distanceMeters r)))
           \<and> c \<in> set candidates
           \<and> r = c \<lparr> topCandidates := Some top \<rparr>"
proof -
  define ranked where "ranked = airportRanked candidates cityName"
  define top where "top = map airportCandidate (take 3 ranked)"
  from assms obtain row others where
    ranked: "ranked = row # others"
    and r: "r = (fst row) \<lparr> topCandidates := Some top \<rparr>"
    unfolding pickBestAirportHub_def Let_def ranked_def top_def
    by (auto split: if_splits list.splits)
  have mem: "\<And>item. item \<in> set ranked \<Longrightarrow>
      fst item \<in> set candidates
      \<and> snd item = buildAirportScore (name (fst item)) cityName (distanceMeters (fst item))"
    unfolding ranked_def airportRanked_def set_sortBy
    using airportWorking_member(1) [of _ candidates] by auto
  have p: "fst row \<in> set candidates"
    "snd row = buildAirportScore (name (fst row)) cityName (distanceMeters (fst row))"
    using mem [of row] ranked by simp_all
  have "sorted_wrt (\<lambda>a b. airportCompare a b \<le> 0) ranked"
    unfolding ranked_def airportRanked_def by (rule sorted_sortBy [OF consistent_airportCompare])
  then have "sorted_wrt (\<lambda>a b. airportCompare a b \<le> 0) (take 3 ranked)" by (rule sorted_wrt_take)
  then have sorted: "sorted_wrt specAirportOrder top"
    unfolding top_def
    by (rule sorted_wrt_map_mono) (rule airportCandidate_order)
  have t: "top = airportCandidate row # map airportCandidate (take 2 others)"
    unfolding top_def ranked by (simp add: numeral_3_eq_3 take_Suc_Cons numeral_2_eq_2)
  have len: "length top \<le> 3" unfolding top_def by simp
  show ?thesis
    using t len sorted p r by (intro exI [of _ top] exI [of _ "airportCandidate row"]
      exI [of _ "map airportCandidate (take 2 others)"] exI [of _ "fst row"])
      (simp add: airportCandidate_def)
qed

text \<open>
  C5 (as amended). Whenever \<open>pickBestTrainHub\<close> or \<open>pickBestAirportHub\<close> returns a
  result, it carries \<open>topCandidates\<close>, a list of one to three entries in the order of
  the specification (train: descending score, then descending line count estimate, then
  ascending distance; airport: descending score, then ascending distance; a missing
  distance last), and the name, address and distance of the first entry are those of
  the result. The result is one of the input candidates with \<open>topCandidates\<close> set and,
  for a train, with \<open>trainProfile\<close> set to the profile of its name. So the score of the
  first entry is the composite score in \<open>trainProfile\<close> of a train result; an airport
  result has no field that holds a score, and the score of its first entry is the
  airport score of its name, city and distance.
\<close>

theorem topCandidates_of_result:
  "(pickBestTrainHub candidates cityName highSpeedOnly = Some r
      \<longrightarrow> (\<exists>top first rest c.
             topCandidates r = Some top \<and> top = first # rest \<and> length top \<le> 3
             \<and> sorted_wrt (specTrainOrder cityName) top
             \<and> cand_name first = name r \<and> cand_address first = address r
             \<and> cand_distanceMeters first = distanceMeters r
             \<and> map_option compositeScore (trainProfile r) = Some (cand_score first)
             \<and> c \<in> set candidates
             \<and> r = c \<lparr> trainProfile := Some (buildTrainStationProfile (name c) cityName),
                        topCandidates := Some top \<rparr>))
   \<and> (pickBestAirportHub candidates cityName = Some r
      \<longrightarrow> (\<exists>top first rest c.
             topCandidates r = Some top \<and> top = first # rest \<and> length top \<le> 3
             \<and> sorted_wrt specAirportOrder top
             \<and> cand_name first = name r \<and> cand_address first = address r
             \<and> cand_distanceMeters first = distanceMeters r
             \<and> cand_score first
                 = of_int (score (buildAirportScore (name r) cityName (distanceMeters r)))
             \<and> c \<in> set candidates
             \<and> r = c \<lparr> topCandidates := Some top \<rparr>))"
  using pickBestTrainHub_Some [of candidates cityName highSpeedOnly r]
    pickBestAirportHub_Some [of candidates cityName r]
  by blast

lemma airport_single_pudong:
  "pickBestAirportHub
     [\<lparr> kind = airport, kindLabel = [], name = [0x6D66, 0x4E1C, 0x56FD, 0x9645, 0x673A, 0x573A],
        address = [], distanceMeters = Some 1000, latitude = Finite 31, longitude = Finite 121,
        highSpeedQueryHit = None, trainProfile = None, topCandidates = None \<rparr>]
     None
     = Some (\<lparr> kind = airport, kindLabel = [], name = [0x6D66, 0x4E1C, 0x56FD, 0x9645, 0x673A, 0x573A],
        address = [], distanceMeters = Some 1000, latitude = Finite 31, longitude = Finite 121,
        highSpeedQueryHit = None, trainProfile = None, topCandidates = None \<rparr>
          \<lparr> topCandidates :=
              Some [\<lparr> cand_name = [0x6D66, 0x4E1C, 0x56FD, 0x9645, 0x673A, 0x573A], cand_address = [],
                       cand_distanceMeters = Some 1000, cand_score = 92,
                       cand_reasonTags = [tagInternational, tagDistancePrefix @ [0x31]] \<rparr>] \<rparr>)"
proof -
  define a where "a = \<lparr> kind = airport, kindLabel = [], name = [0x6D66, 0x4E1C, 0x56FD, 0x9645, 0x673A, 0x573A],
        address = [], distanceMeters = Some 1000, latitude = Finite 31, longitude = Finite 121,
        highSpeedQueryHit = None, trainProfile = None, topCandidates = None \<rparr>"
  have f: "name a = [0x6D66, 0x4E1C, 0x56FD, 0x9645, 0x673A, 0x573A]" "distanceMeters a = Some 1000" "address a = []"
    by (simp_all add: a_def)
  have c: "canonicalAirportName [0x6D66, 0x4E1C, 0x56FD, 0x9645, 0x673A, 0x573A] = [0x6D66, 0x4E1C, 0x56FD, 0x9645, 0x673A, 0x573A]"
    by (simp add: canonical_eval)
  have w: "airportWorking [a] = [a]"
    by (simp add: airportWorking_def groupAirports_def sortBy_def)
  have d: "\<forall>d. Some (1000 :: int) = Some d \<longrightarrow> 0 \<le> d" by simp
  have n: "normalizeStationName [0x6D66, 0x4E1C, 0x56FD, 0x9645, 0x673A, 0x573A] = [0x6D66, 0x4E1C, 0x56FD, 0x9645, 0x673A, 0x573A]" "normalizeCityToken None = []"
    by (simp_all add: name_eval)
  have b: "buildAirportScore [0x6D66, 0x4E1C, 0x56FD, 0x9645, 0x673A, 0x573A] None (Some 1000)
             = \<lparr> score = 92, scoreTags = [tagInternational, tagDistancePrefix @ [0x31]] \<rparr>"
    unfolding buildAirportScore_def Let_def distancePenalty_exact [OF d] n
    by (simp add: cityMatches_def testAny_def airport_eval floor_rat_numeral)
  have "pickBestAirportHub [a] None
     = Some (a \<lparr> topCandidates :=
              Some [\<lparr> cand_name = [0x6D66, 0x4E1C, 0x56FD, 0x9645, 0x673A, 0x573A], cand_address = [],
                       cand_distanceMeters = Some 1000, cand_score = 92,
                       cand_reasonTags = [tagInternational, tagDistancePrefix @ [0x31]] \<rparr>] \<rparr>)"
    unfolding pickBestAirportHub_def airportRanked_def Let_def w
    by (simp add: sortBy_def f b airportCandidate_def)
  then show ?thesis unfolding a_def .
qed

text \<open>
  C5, counterexample. The claim has the score of the first entry equal to a field of the
  result. For the single candidate Pudong international airport at 1000 metres (no
  city) the first entry has score 92; the result is the candidate itself with
  \<open>topCandidates\<close> added: it has no train profile, and its numbers are the distance 1000
  and the coordinates 31 and 121.
\<close>

theorem airport_result_score_counterexample:
  "pickBestAirportHub
     [\<lparr> kind = airport, kindLabel = [], name = [0x6D66, 0x4E1C, 0x56FD, 0x9645, 0x673A, 0x573A],
        address = [], distanceMeters = Some 1000, latitude = Finite 31, longitude = Finite 121,
        highSpeedQueryHit = None, trainProfile = None, topCandidates = None \<rparr>]
     None
     = Some (\<lparr> kind = airport, kindLabel = [], name = [0x6D66, 0x4E1C, 0x56FD, 0x9645, 0x673A, 0x573A],
        address = [], distanceMeters = Some 1000, latitude = Finite 31, longitude = Finite 121,
        highSpeedQueryHit = None, trainProfile = None, topCandidates = None \<rparr>
          \<lparr> topCandidates :=
              Some [\<lparr> cand_name = [0x6D66, 0x4E1C, 0x56FD, 0x9645, 0x673A, 0x573A], cand_address = [],
                       cand_distanceMeters = Some 1000, cand_score = 92,
                       cand_reasonTags = [tagInternational, tagDistancePrefix @ [0x31]] \<rparr>] \<rparr>)
   \<and> trainProfile
        (\<lparr> kind = airport, kindLabel = [], name = [0x6D66, 0x4E1C, 0x56FD, 0x9645, 0x673A, 0x573A],
        address = [], distanceMeters = Some 1000, latitude = Finite 31, longitude = Finite 121,
        highSpeedQueryHit = None, trainProfile = None, topCandidates = None \<rparr>
          \<lparr> topCandidates :=
              Some [\<lparr> cand_name = [0x6D66, 0x4E1C, 0x56FD, 0x9645, 0x673A, 0x573A], cand_address = [],
                       cand_distanceMeters = Some 1000, cand_score = 92,
                       cand_reasonTags = [tagInternational, tagDistancePrefix @ [0x31]] \<rparr>] \<rparr>)
       = None"
  using airport_single_pudong by simp

lemma train_scenario_result:
  "\<exists>r. pickBestTrainHub
          [\<lparr> kind = highspeed, kindLabel = [], name = [0x5317, 0x4EAC, 0x7AD9], address = [],
        distanceMeters = Some 3000, latitude = Finite 0, longitude = Finite 0,
        highSpeedQueryHit = None, trainProfile = None, topCandidates = None \<rparr>,
           \<lparr> kind = highspeed, kindLabel = [], name = [0x5317, 0x4EAC, 0x5357, 0x7AD9], address = [],
        distanceMeters = Some 12000, latitude = Finite 0, longitude = Finite 0,
        highSpeedQueryHit = Some True, trainProfile = None, topCandidates = None \<rparr>,
           \<lparr> kind = highspeed, kindLabel = [], name = [0x6DBF, 0x5DDE, 0x4E1C, 0x7AD9], address = [],
        distanceMeters = Some 45000, latitude = Finite 0, longitude = Finite 0,
        highSpeedQueryHit = Some True, trainProfile = None, topCandidates = None \<rparr>]
          (Some [0x5317, 0x4EAC]) True = Some r"
proof -
  define c1 where "c1 = \<lparr> kind = highspeed, kindLabel = [], name = [0x5317, 0x4EAC, 0x7AD9], address = [],
        distanceMeters = Some 3000, latitude = Finite 0, longitude = Finite 0,
        highSpeedQueryHit = None, trainProfile = None, topCandidates = None \<rparr>"
  define c2 where "c2 = \<lparr> kind = highspeed, kindLabel = [], name = [0x5317, 0x4EAC, 0x5357, 0x7AD9], address = [],
        distanceMeters = Some 12000, latitude = Finite 0, longitude = Finite 0,
        highSpeedQueryHit = Some True, trainProfile = None, topCandidates = None \<rparr>"
  define c3 where "c3 = \<lparr> kind = highspeed, kindLabel = [], name = [0x6DBF, 0x5DDE, 0x4E1C, 0x7AD9], address = [],
        distanceMeters = Some 45000, latitude = Finite 0, longitude = Finite 0,
        highSpeedQueryHit = Some True, trainProfile = None, topCandidates = None \<rparr>"
  have n: "name c1 = [0x5317, 0x4EAC, 0x7AD9]" "name c2 = [0x5317, 0x4EAC, 0x5357, 0x7AD9]" "name c3 = [0x6DBF, 0x5DDE, 0x4E1C, 0x7AD9]"
    by (simp_all add: c1_def c2_def c3_def)
  have h: "highSpeedQueryHit c2 = Some True" "highSpeedQueryHit c3 = Some True"
    by (simp_all add: c2_def c3_def)
  have "\<exists>r. pickBestTrainHub [c1, c2, c3] (Some [0x5317, 0x4EAC]) True = Some r"
    unfolding pickBestTrainHub_def Let_def scenario_filtered [OF n h] scenario_ranked
    by simp
  then show ?thesis unfolding c1_def c2_def c3_def .
qed

text \<open>
  C5, witness: the three stations of the scenario of Beijing for the train pick, and
  Pudong international airport alone for the airport pick.
\<close>

theorem topCandidates_of_result_witness:
  "(\<exists>r top first rest.
      pickBestTrainHub
        [\<lparr> kind = highspeed, kindLabel = [], name = [0x5317, 0x4EAC, 0x7AD9], address = [],
        distanceMeters = Some 3000, latitude = Finite 0, longitude = Finite 0,
        highSpeedQueryHit = None, trainProfile = None, topCandidates = None \<rparr>,
         \<lparr> kind = highspeed, kindLabel = [], name = [0x5317, 0x4EAC, 0x5357, 0x7AD9], address = [],
        distanceMeters = Some 12000, latitude = Finite 0, longitude = Finite 0,
        highSpeedQueryHit = Some True, trainProfile = None, topCandidates = None \<rparr>,
         \<lparr> kind = highspeed, kindLabel = [], name = [0x6DBF, 0x5DDE, 0x4E1C, 0x7AD9], address = [],
        distanceMeters = Some 45000, latitude = Finite 0, longitude = Finite 0,
        highSpeedQueryHit = Some True, trainProfile = None, topCandidates = None \<rparr>]
        (Some [0x5317, 0x4EAC]) True = Some r
      \<and> topCandidates r = Some top \<and> top = first # rest \<and> length top \<le> 3
      \<and> sorted_wrt (specTrainOrder (Some [0x5317, 0x4EAC])) top
      \<and> cand_name first = name r
      \<and> map_option compositeScore (trainProfile r) = Some (cand_score first))
   \<and> (\<exists>r top first rest.
      pickBestAirportHub
        [\<lparr> kind = airport, kindLabel = [], name = [0x6D66, 0x4E1C, 0x56FD, 0x9645, 0x673A, 0x573A],
        address = [], distanceMeters = Some 1000, latitude = Finite 31, longitude = Finite 121,
        highSpeedQueryHit = None, trainProfile = None, topCandidates = None \<rparr>]
        None = Some r
      \<and> topCandidates r = Some top \<and> top = first # rest \<and> length top \<le> 3
      \<and> sorted_wrt specAirportOrder top
      \<and> cand_name first = name r)"
proof (rule conjI)
  from train_scenario_result obtain r where
    r: "pickBestTrainHub
          [\<lparr> kind = highspeed, kindLabel = [], name = [0x5317, 0x4EAC, 0x7AD9], address = [],
        distanceMeters = Some 3000, latitude = Finite 0, longitude = Finite 0,
        highSpeedQueryHit = None, trainProfile = None, topCandidates = None \<rparr>,
           \<lparr> kind = highspeed, kindLabel = [], name = [0x5317, 0x4EAC, 0x5357, 0x7AD9], address = [],
        distanceMeters = Some 12000, latitude = Finite 0, longitude = Finite 0,
        highSpeedQueryHit = Some True, trainProfile = None, topCandidates = None \<rparr>,
           \<lparr> kind = highspeed, kindLabel = [], name = [0x6DBF, 0x5DDE, 0x4E1C, 0x7AD9], address = [],
        distanceMeters = Some 45000, latitude = Finite 0, longitude = Finite 0,
        highSpeedQueryHit = Some True, trainProfile = None, topCandidates = None \<rparr>]
          (Some [0x5317, 0x4EAC]) True = Some r"
    by blast
  from topCandidates_of_result [THEN conjunct1, rule_format, OF r]
  show "\<exists>r top first rest.
      pickBestTrainHub
        [\<lparr> kind = highspeed, kindLabel = [], name = [0x5317, 0x4EAC, 0x7AD9], address = [],
        distanceMeters = Some 3000, latitude = Finite 0, longitude = Finite 0,
        highSpeedQueryHit = None, trainProfile = None, topCandidates = None \<rparr>,
         \<lparr> kind = highspeed, kindLabel = [], name = [0x5317, 0x4EAC, 0x5357, 0x7AD9], address = [],
        distanceMeters = Some 12000, latitude = Finite 0, longitude = Finite 0,
        highSpeedQueryHit = Some True, trainProfile = None, topCandidates = None \<rparr>,
         \<lparr> kind = highspeed, kindLabel = [], name = [0x6DBF, 0x5DDE, 0x4E1C, 0x7AD9], address = [],
        distanceMeters = Some 45000, latitude = Finite 0, longitude = Finite 0,
        highSpeedQueryHit = Some True, trainProfile = None, topCandidates = None \<rparr>]
        (Some [0x5317, 0x4EAC]) True = Some r
      \<and> topCandidates r = Some top \<and> top = first # rest \<and> length top \<le> 3
      \<and> sorted_wrt (specTrainOrder (Some [0x5317, 0x4EAC])) top
      \<and> cand_name first = name r
      \<and> map_option compositeScore (trainProfile r) = Some (cand_score first)"
    using r by blast
next
  from airport_single_pudong obtain r where
    r: "pickBestAirportHub
          [\<lparr> kind = airport, kindLabel = [], name = [0x6D66, 0x4E1C, 0x56FD, 0x9645, 0x673A, 0x573A],
        address = [], distanceMeters = Some 1000, latitude = Finite 31, longitude = Finite 121,
        highSpeedQueryHit = None, trainProfile = None, topCandidates = None \<rparr>]
          None = Some r"
    by blast
  from topCandidates_of_result [THEN conjunct2, rule_format, OF r]
  show "\<exists>r top first rest.
      pickBestAirportHub
        [\<lparr> kind = airport, kindLabel = [], name = [0x6D66, 0x4E1C, 0x56FD, 0x9645, 0x673A, 0x573A],
        address = [], distanceMeters = Some 1000, latitude = Finite 31, longitude = Finite 121,
        highSpeedQueryHit = None, trainProfile = None, topCandidates = None \<rparr>]
        None = Some r
      \<and> topCandidates r = Some top \<and> top = first # rest \<and> length top \<le> 3
      \<and> sorted_wrt specAirportOrder top
      \<and> cand_name first = name r"
    using r by blast
qed

end
